theory Spec2Isabelle
  imports Main "HOL-Library.Sublist"
begin

section \<open>Product Creator: the retry client, the content generator and the row loop\<close>

text \<open>
  A shallow embedding of \<^verbatim>\<open>src/ProdCreator.py\<close>. The script talks to the outside world
  (environment variables, the input file, two web services, the clock, the console and the
  file system). Everything the outside world decides is a field of the record \<open>world\<close>;
  everything the script does to it is an \<open>event\<close> appended to the trace of the \<open>state\<close>
  that every function takes and returns. A Python exception is a value of type \<open>error\<close>,
  and a function that may raise returns \<open>error + 'a\<close> with \<open>Inl\<close> for the exception.
  Only exceptions below \<^verbatim>\<open>Exception\<close> are modelled, the ones \<^verbatim>\<open>except Exception\<close> catches.

  A Python \<^verbatim>\<open>str\<close> is the list of its code points; the type \<open>char\<close> covers the code
  points below 256.
\<close>

subsection \<open>Exceptions, console messages and events\<close>

datatype error =
    ValueError string
  | FileNotFoundError string
  | AttributeError string
  | IndexError string
  | HTTPError nat
  | AuthenticationError string
  | OverflowError string
  | OSError string
  | OtherException string

text \<open>
  The console lines of the script. Lines that format an exception or a number keep it as
  a value: \<open>RateLimitedMsg n\<close> is \<^verbatim>\<open>Rate limited. Waiting {n} seconds...\<close>,
  \<open>RetryingMsg e d\<close> is \<^verbatim>\<open>Error: {e}. Retrying in {d} seconds...\<close> and
  \<open>ImageErrorMsg e\<close> is \<^verbatim>\<open>Error generating image: {e}\<close>.
\<close>

datatype message =
    Line string
  | RateLimitedMsg int
  | RetryingMsg error int
  | ImageErrorMsg error

datatype image = Image string

text \<open>The result table of \<^verbatim>\<open>main\<close>: a dictionary of five lists, one per output column.\<close>

record results =
  file_name :: "string list"
  local_path :: "string list"
  title :: "string list"
  description :: "string list"
  tags :: "string list"

datatype event =
    Print message
  | Post string
  | Sleep int
  | ImagesGenerate string
  | Get string
  | Save image string
  | ToCsv results string

subsection \<open>The outside world\<close>

text \<open>
  A header value as \<^verbatim>\<open>int(...)\<close> reads it: the text of an integer, or any other text
  (an HTTP date, a decimal fraction), on which \<^verbatim>\<open>int\<close> raises \<^verbatim>\<open>ValueError\<close>.
\<close>

datatype header_value = IntText int | OtherText string

text \<open>
  An HTTP response of the text service: its status code, its \<^verbatim>\<open>Retry-After\<close> header
  if it has one, and what \<^verbatim>\<open>response.json()['choices'][0]['message']['content']\<close>
  evaluates to: the text, or the exception raised on a body of another shape.
\<close>

record response =
  status_code :: nat
  retry_after :: "header_value option"
  content :: "error + string"

datatype http_outcome = Raises error | Response response

datatype csv_outcome =
    FileNotFound
  | EmptyData
  | ReadError error
  | Frame "(string \<times> string list) list"

text \<open>
  \<open>post w k\<close> is the outcome of the \<open>k\<close>-th \<^verbatim>\<open>requests.post\<close> of the run (counted from 0),
  \<open>images_generate w k\<close> and \<open>requests_get w k\<close> the outcomes of the image service call and
  of the image download in the \<open>k\<close>-th call of \<^verbatim>\<open>generate_image\<close>: an exception, or the
  URLs of \<^verbatim>\<open>response.data\<close> and the downloaded bytes. \<open>image_open w\<close> says on which bytes
  \<^verbatim>\<open>Image.open\<close> raises, and \<open>image_save w img name\<close> whether \<^verbatim>\<open>img.save(name)\<close>
  raises (on image data that \<^verbatim>\<open>Image.open\<close> accepted and that does not decode, or on a
  file that cannot be written). \<open>sleep_raises w\<close> says which long durations
  \<^verbatim>\<open>time.sleep\<close> rejects. \<open>read_csv w\<close> is what \<^verbatim>\<open>pd.read_csv("input.csv")\<close> finds: a data frame is
  the list of its columns, each a name and its cells, indexed by position from 0.
  Writing the output table (\<^verbatim>\<open>to_csv\<close>) is an event.
\<close>

record world =
  getenv :: "string \<Rightarrow> string option"
  read_csv :: csv_outcome
  post :: "nat \<Rightarrow> http_outcome"
  images_generate :: "nat \<Rightarrow> error + string list"
  requests_get :: "nat \<Rightarrow> error + string"
  image_open :: "string \<Rightarrow> error option"
  image_save :: "image \<Rightarrow> string \<Rightarrow> error option"
  sleep_raises :: "int \<Rightarrow> error option"

record state =
  posts :: nat
  image_calls :: nat
  trace :: "event list"

definition initial_state :: state where
  "initial_state = \<lparr>posts = 0, image_calls = 0, trace = []\<rparr>"

definition emit :: "event \<Rightarrow> state \<Rightarrow> state" where
  "emit ev st = st\<lparr>trace := trace st @ [ev]\<rparr>"

text \<open>
  \<^verbatim>\<open>time.sleep(secs)\<close> raises \<^verbatim>\<open>ValueError\<close> on a negative argument. It raises on a
  long one too: \<^verbatim>\<open>OverflowError\<close> when the duration does not fit the clock of the
  interpreter (64-bit nanoseconds, about 9.2e9 seconds; 32-bit milliseconds, about 4.2e6
  seconds, on older Windows builds), \<^verbatim>\<open>OSError\<close> when the operating system rejects the
  deadline. Where that limit lies depends on the platform and on its clock, so the world
  decides it, beyond the 1000000 seconds that every platform sleeps.
\<close>

definition sleep_error :: "world \<Rightarrow> int \<Rightarrow> error option" where
  "sleep_error w secs =
     (if secs < 0 then Some (ValueError ''sleep length must be non-negative'')
      else if secs \<le> 1000000 then None
      else sleep_raises w secs)"

definition time_sleep :: "world \<Rightarrow> int \<Rightarrow> state \<Rightarrow> (error + unit) \<times> state" where
  "time_sleep w secs st =
     (case sleep_error w secs of
        Some e \<Rightarrow> (Inl e, st)
      | None \<Rightarrow> (Inr (), emit (Sleep secs) st))"

definition requests_post :: "world \<Rightarrow> string \<Rightarrow> state \<Rightarrow> http_outcome \<times> state" where
  "requests_post w prompt st =
     (post w (posts st), emit (Post prompt) (st\<lparr>posts := posts st + 1\<rparr>))"

text \<open>\<^verbatim>\<open>response.raise_for_status()\<close> raises on the statuses 400 to 599.\<close>

definition raise_for_status :: "response \<Rightarrow> error option" where
  "raise_for_status r =
     (if 400 \<le> status_code r \<and> status_code r < 600 then Some (HTTPError (status_code r))
      else None)"

subsection \<open>Strings\<close>

definition quote :: char where
  "quote = CHR 0x22"

definition apostrophe :: char where
  "apostrophe = CHR 0x27"

definition newline :: char where
  "newline = CHR 0x0A"

text \<open>\<^verbatim>\<open>s.replace('"', '')\<close>: every occurrence of the quote character is removed.\<close>

definition replace_quote :: "string \<Rightarrow> string" where
  "replace_quote s = filter (\<lambda>c. c \<noteq> quote) s"

text \<open>
  \<^verbatim>\<open>s.strip()\<close> removes the white space at both ends. Below code point 256 the white
  space of \<^verbatim>\<open>str.isspace\<close> is 9 to 13, 28 to 32, 133 and 160.
\<close>

definition isspace :: "char \<Rightarrow> bool" where
  "isspace c =
     (let n = (of_char c :: nat)
      in (9 \<le> n \<and> n \<le> 13) \<or> (28 \<le> n \<and> n \<le> 32) \<or> n = 133 \<or> n = 160)"

definition strip :: "string \<Rightarrow> string" where
  "strip s = rev (dropWhile isspace (rev (dropWhile isspace s)))"

text \<open>\<^verbatim>\<open>str(n)\<close> for a natural number: its decimal digits.\<close>

function str_nat :: "nat \<Rightarrow> string" where
  "str_nat n =
     (if n < 10 then [char_of (48 + n)]
      else str_nat (n div 10) @ [char_of (48 + n mod 10)])"
  by pat_completeness auto
termination
  by (relation "measure (\<lambda>n. n)") auto

subsection \<open>MistralAPI\<close>

record MistralAPI =
  api_key :: string
  base_url :: string
  max_retries :: int
  retry_delay :: int
  timeout :: int

definition MistralAPI_init :: "string \<Rightarrow> MistralAPI" where
  "MistralAPI_init key =
     \<lparr>api_key = key,
      base_url = ''https://api.mistral.ai/v1/chat/completions'',
      max_retries = 3,
      retry_delay = 2,
      timeout = 30\<rparr>"

text \<open>\<^verbatim>\<open>range(n)\<close>: the integers from 0 below \<open>n\<close>, none when \<open>n\<close> is not positive.\<close>

definition py_range :: "int \<Rightarrow> int list" where
  "py_range n = map int [0..<nat n]"

text \<open>
  Line 73, \<^verbatim>\<open>int(response.headers.get('Retry-After', self.retry_delay * (attempt + 1)))\<close>:
  the header when the response has it, converted by \<^verbatim>\<open>int\<close>, and otherwise the default.
\<close>

definition wait_time :: "MistralAPI \<Rightarrow> int \<Rightarrow> response \<Rightarrow> error + int" where
  "wait_time self attempt r =
     (case retry_after r of
        None \<Rightarrow> Inr (retry_delay self * (attempt + 1))
      | Some (IntText n) \<Rightarrow> Inr n
      | Some (OtherText s) \<Rightarrow> Inl (ValueError ''invalid literal for int() with base 10''))"

text \<open>
  The \<^verbatim>\<open>try\<close> block of one loop iteration (lines 56 to 79) leaves in one of three ways:
  it returns the text, it reaches \<^verbatim>\<open>continue\<close> after a 429, or it raises.
\<close>

datatype flow = Return string | Continue | Raise error

definition try_block :: "MistralAPI \<Rightarrow> world \<Rightarrow> string \<Rightarrow> int \<Rightarrow> state \<Rightarrow> flow \<times> state" where
  "try_block self w prompt attempt st =
     (case requests_post w prompt st of
        (Raises e, st1) \<Rightarrow> (Raise e, st1)
      | (Response r, st1) \<Rightarrow>
          if status_code r = 429 then
            (case wait_time self attempt r of
               Inl e \<Rightarrow> (Raise e, st1)
             | Inr secs \<Rightarrow>
                 (case time_sleep w secs (emit (Print (RateLimitedMsg secs)) st1) of
                    (Inl e, st2) \<Rightarrow> (Raise e, st2)
                  | (Inr u, st2) \<Rightarrow> (Continue, st2)))
          else
            (case raise_for_status r of
               Some e \<Rightarrow> (Raise e, st1)
             | None \<Rightarrow>
                 (case content r of
                    Inl e \<Rightarrow> (Raise e, st1)
                  | Inr c \<Rightarrow> (Return (strip c), st1))))"

text \<open>
  The loop \<^verbatim>\<open>for attempt in range(self.max_retries)\<close> with its \<^verbatim>\<open>except\<close> handler
  (lines 81 to 86). The result \<open>Inr None\<close> is Python's \<^verbatim>\<open>None\<close>, returned when the loop
  ends and control leaves the function at its end.
\<close>

fun attempts :: "MistralAPI \<Rightarrow> world \<Rightarrow> string \<Rightarrow> int list \<Rightarrow> state \<Rightarrow> (error + string option) \<times> state" where
  "attempts self w prompt [] st = (Inr None, st)"
| "attempts self w prompt (attempt # rest) st =
     (case try_block self w prompt attempt st of
        (Return s, st1) \<Rightarrow> (Inr (Some s), st1)
      | (Continue, st1) \<Rightarrow> attempts self w prompt rest st1
      | (Raise e, st1) \<Rightarrow>
          if attempt < max_retries self - 1 then
            (case time_sleep w (retry_delay self)
                    (emit (Print (RetryingMsg e (retry_delay self))) st1) of
               (Inl e', st2) \<Rightarrow> (Inl e', st2)
             | (Inr u, st2) \<Rightarrow> attempts self w prompt rest st2)
          else (Inl e, st1))"

definition make_request :: "MistralAPI \<Rightarrow> world \<Rightarrow> string \<Rightarrow> state \<Rightarrow> (error + string option) \<times> state" where
  "make_request self w prompt st = attempts self w prompt (py_range (max_retries self)) st"

text \<open>
  \<^verbatim>\<open>self._make_request(prompt).replace('"', '')\<close>: on \<^verbatim>\<open>None\<close> the attribute lookup
  raises \<^verbatim>\<open>AttributeError\<close>.
\<close>

definition request_replace :: "MistralAPI \<Rightarrow> world \<Rightarrow> string \<Rightarrow> state \<Rightarrow> (error + string) \<times> state" where
  "request_replace self w prompt st =
     (case make_request self w prompt st of
        (Inl e, st1) \<Rightarrow> (Inl e, st1)
      | (Inr None, st1) \<Rightarrow>
          (Inl (AttributeError ''NoneType object has no attribute replace''), st1)
      | (Inr (Some s), st1) \<Rightarrow> (Inr (replace_quote s), st1))"

definition title_prompt :: "string \<Rightarrow> string" where
  "title_prompt detail =
     ''Generate a catchy title with theme: '' @ [apostrophe] @ detail @ [apostrophe]
     @ ''. Max 50 chars.'' @ [apostrophe]"

definition generate_title :: "MistralAPI \<Rightarrow> world \<Rightarrow> string \<Rightarrow> state \<Rightarrow> (error + string) \<times> state" where
  "generate_title self w detail st =
     request_replace self w (title_prompt detail) (emit (Print (Line ''Generating title...'')) st)"

definition description_prompt :: "string \<Rightarrow> string \<Rightarrow> string" where
  "description_prompt detail ttl =
     ''Generate a compelling description for a product with:'' @ [newline]
     @ ''        Title: '' @ ttl @ [newline]
     @ ''        Theme: '' @ detail @ [newline]
     @ ''        Maximum 150 characters.''"

definition get_template_description :: string where
  "get_template_description =
     [newline]
     @ ''        <p>Acrylic art panels are a modern way to display beautiful and vibrant art that looks like it''
     @ [apostrophe] @ ''s embedded in clear glass. '' @ [newline]
     @ ''        They have a clear, glossy acrylic surface and a white vinyl backing. Four silver stand-offs make it very easy to mount to the wall.</p>''
     @ [newline]
     @ ''        <p>.: Material: Clear acrylic with white vinyl backing<br />'' @ [newline]
     @ ''        .: Clear, glossy surface<br />'' @ [newline]
     @ ''        .: Seven sizes to choose from<br />'' @ [newline]
     @ ''        .: Horizontal, vertical and square options available<br />'' @ [newline]
     @ ''        .: NB! For indoor use only</p>'' @ [newline]
     @ ''        ''"

definition generate_description :: "MistralAPI \<Rightarrow> world \<Rightarrow> string \<Rightarrow> string \<Rightarrow> state \<Rightarrow> (error + string) \<times> state" where
  "generate_description self w detail ttl st =
     (case request_replace self w (description_prompt detail ttl)
             (emit (Print (Line ''Generating description...'')) st) of
        (Inl e, st1) \<Rightarrow> (Inl e, st1)
      | (Inr d, st1) \<Rightarrow> (Inr (d @ get_template_description), st1))"

definition image_prompt_prompt :: "string \<Rightarrow> string" where
  "image_prompt_prompt detail =
     ''Generate a creative image prompt for a T-shirt with theme: '' @ [apostrophe] @ detail
     @ [apostrophe] @ ''. Max 75 chars.''"

definition generate_image_prompt :: "MistralAPI \<Rightarrow> world \<Rightarrow> string \<Rightarrow> state \<Rightarrow> (error + string) \<times> state" where
  "generate_image_prompt self w detail st =
     request_replace self w (image_prompt_prompt detail)
       (emit (Print (Line ''Generating image prompt...'')) st)"

definition tags_prompt :: "string \<Rightarrow> string" where
  "tags_prompt detail =
     ''Generate relevant tags for a T-shirt with theme: '' @ [apostrophe] @ detail
     @ [apostrophe] @ ''. Separate with commas.''"

definition generate_tags :: "MistralAPI \<Rightarrow> world \<Rightarrow> string \<Rightarrow> state \<Rightarrow> (error + string) \<times> state" where
  "generate_tags self w detail st =
     request_replace self w (tags_prompt detail) (emit (Print (Line ''Generating tags...'')) st)"

subsection \<open>generate_image\<close>

text \<open>
  The \<^verbatim>\<open>try\<close> block of \<^verbatim>\<open>generate_image\<close> (lines 171 to 182): the call of the image
  service, \<^verbatim>\<open>response.data[0].url\<close>, the download and \<^verbatim>\<open>Image.open\<close>. The number of
  the call is \<open>image_calls\<close> of the state the block starts from.
\<close>

definition image_try_block :: "world \<Rightarrow> string \<Rightarrow> state \<Rightarrow> (error + image \<times> string) \<times> state" where
  "image_try_block w prompt st =
     (let k = image_calls st;
          st1 = emit (ImagesGenerate prompt) (st\<lparr>image_calls := k + 1\<rparr>)
      in case images_generate w k of
           Inl e \<Rightarrow> (Inl e, st1)
         | Inr [] \<Rightarrow> (Inl (IndexError ''list index out of range''), st1)
         | Inr (image_url # urls) \<Rightarrow>
             (let st2 = emit (Get image_url) (emit (Print (Line (''Image URL: '' @ image_url))) st1)
              in case requests_get w k of
                   Inl e \<Rightarrow> (Inl e, st2)
                 | Inr bytes \<Rightarrow>
                     (case image_open w bytes of
                        Some e \<Rightarrow> (Inl e, st2)
                      | None \<Rightarrow> (Inr (Image bytes, image_url), st2))))"

text \<open>
  \<^verbatim>\<open>generate_image\<close> returns the pair of the image and its URL, or \<^verbatim>\<open>(None, None)\<close>,
  here \<open>None\<close>, from its \<^verbatim>\<open>except\<close> handler.
\<close>

definition generate_image :: "world \<Rightarrow> string \<Rightarrow> state \<Rightarrow> (image \<times> string) option \<times> state" where
  "generate_image w prompt st =
     (case image_try_block w prompt (emit (Print (Line ''Generating image...'')) st) of
        (Inl e, st1) \<Rightarrow> (None, emit (Print (ImageErrorMsg e)) st1)
      | (Inr r, st1) \<Rightarrow> (Some r, st1))"

subsection \<open>main\<close>

text \<open>
  The block \<^verbatim>\<open># Generate content\<close> of the row loop (lines 224 to 231): the four
  text-generation calls in their order, none of them inside a \<^verbatim>\<open>try\<close>. It yields the
  title, the description, the image prompt and the tags.
\<close>

definition generate_content :: "MistralAPI \<Rightarrow> world \<Rightarrow> string \<Rightarrow> state \<Rightarrow> (error + string \<times> string \<times> string \<times> string) \<times> state" where
  "generate_content mistral w detail st =
     (case generate_title mistral w detail st of
        (Inl e, st1) \<Rightarrow> (Inl e, st1)
      | (Inr ttl, st1) \<Rightarrow>
     (case generate_description mistral w detail ttl (emit (Print (Line (''Title: '' @ ttl))) st1) of
        (Inl e, st2) \<Rightarrow> (Inl e, st2)
      | (Inr descr, st2) \<Rightarrow>
     (case generate_image_prompt mistral w detail (emit (Print (Line (''Description: '' @ descr))) st2) of
        (Inl e, st3) \<Rightarrow> (Inl e, st3)
      | (Inr image_prompt, st3) \<Rightarrow>
     (case generate_tags mistral w detail (emit (Print (Line (''Image prompt: '' @ image_prompt))) st3) of
        (Inl e, st4) \<Rightarrow> (Inl e, st4)
      | (Inr tgs, st4) \<Rightarrow>
          (Inr (ttl, descr, image_prompt, tgs), emit (Print (Line (''Tags: '' @ tgs))) st4)))))"

definition image_file_name :: "nat \<Rightarrow> string" where
  "image_file_name idx = ''image_'' @ str_nat idx @ ''.png''"

definition store :: "string \<Rightarrow> string \<Rightarrow> string \<Rightarrow> string \<Rightarrow> results \<Rightarrow> results" where
  "store name ttl descr tgs res =
     \<lparr>file_name = file_name res @ [name],
      local_path = local_path res @ [name],
      title = title res @ [ttl],
      description = description res @ [descr],
      tags = tags res @ [tgs]\<rparr>"

text \<open>
  The body of the row loop (lines 221 to 244) for the row \<open>idx\<close> with the cell \<open>detail\<close>.
  The test \<^verbatim>\<open>if image:\<close> holds for every image object and fails for \<^verbatim>\<open>None\<close>.
  \<^verbatim>\<open>image.save(file_name)\<close> (line 237) stands outside every \<^verbatim>\<open>try\<close>: when it raises,
  no file is left, no record is appended and the exception leaves the loop.
\<close>

definition process_row :: "MistralAPI \<Rightarrow> world \<Rightarrow> nat \<Rightarrow> string \<Rightarrow> state \<Rightarrow> results \<Rightarrow> (error + results) \<times> state" where
  "process_row mistral w idx detail st res =
     (case generate_content mistral w detail st of
        (Inl e, st1) \<Rightarrow> (Inl e, st1)
      | (Inr (ttl, descr, image_prompt, tgs), st1) \<Rightarrow>
          (case generate_image w image_prompt st1 of
             (None, st2) \<Rightarrow> (Inr res, st2)
           | (Some (img, image_url), st2) \<Rightarrow>
               (case image_save w img (image_file_name idx) of
                  Some e \<Rightarrow> (Inl e, st2)
                | None \<Rightarrow>
                    (Inr (store (image_file_name idx) ttl descr tgs res),
                     emit (Save img (image_file_name idx)) st2))))"

text \<open>
  The loop \<^verbatim>\<open>for idx, row in df.iterrows()\<close>: an exception of a row ends it. The
  progress bar that \<^verbatim>\<open>tqdm\<close> draws around the iteration is left out.
\<close>

fun process_rows :: "MistralAPI \<Rightarrow> world \<Rightarrow> (nat \<times> string) list \<Rightarrow> state \<Rightarrow> results \<Rightarrow> (error + results) \<times> state" where
  "process_rows mistral w [] st res = (Inr res, st)"
| "process_rows mistral w ((idx, detail) # rows) st res =
     (case process_row mistral w idx detail st res of
        (Inl e, st1) \<Rightarrow> (Inl e, st1)
      | (Inr res1, st1) \<Rightarrow> process_rows mistral w rows st1 res1)"

definition empty_results :: results where
  "empty_results = \<lparr>file_name = [], local_path = [], title = [], description = [], tags = []\<rparr>"

text \<open>\<^verbatim>\<open>df.iterrows()\<close>: the rows with their positions.\<close>

definition iterrows :: "string list \<Rightarrow> (nat \<times> string) list" where
  "iterrows cells = zip [0..<length cells] cells"

text \<open>
  \<^verbatim>\<open>Together()\<close> (line 197) is the constructor of the client library \<^verbatim>\<open>together\<close>, which
  is not part of the repository. As the library documents it, the constructor takes the
  key from the variable \<^verbatim>\<open>TOGETHER_API_KEY\<close> when none is passed, and raises
  \<^verbatim>\<open>AuthenticationError\<close> when the variable is unset or empty; it sends no request.
\<close>

definition Together :: "(string \<Rightarrow> string option) \<Rightarrow> error option" where
  "Together environ =
     (case environ ''TOGETHER_API_KEY'' of
        None \<Rightarrow> Some (AuthenticationError ''The api_key client option must be set'')
      | Some together_api_key \<Rightarrow>
          if together_api_key = [] then
            Some (AuthenticationError ''The api_key client option must be set'')
          else None)"

text \<open>
  \<^verbatim>\<open>main\<close> returns \<open>None\<close> when it reaches its end and \<open>Some e\<close> when the exception \<open>e\<close>
  leaves it. \<^verbatim>\<open>not mistral_api_key\<close> holds for a variable that is unset and for one
  that is empty.
\<close>

definition main :: "world \<Rightarrow> error option \<times> state" where
  "main w =
     (case getenv w ''MISTRAL_API_KEY'' of
        None \<Rightarrow> (Some (ValueError ''MISTRAL_API_KEY environment variable is not set''), initial_state)
      | Some mistral_api_key \<Rightarrow>
     if mistral_api_key = [] then
       (Some (ValueError ''MISTRAL_API_KEY environment variable is not set''), initial_state)
     else
     (case Together (getenv w) of
        Some e \<Rightarrow> (Some e, initial_state)
      | None \<Rightarrow>
     (case read_csv w of
        FileNotFound \<Rightarrow>
          (Some (FileNotFoundError ''input.csv not found in current directory''), initial_state)
      | EmptyData \<Rightarrow> (Some (ValueError ''input.csv is empty''), initial_state)
      | ReadError e \<Rightarrow> (Some e, initial_state)
      | Frame df \<Rightarrow>
     (case map_of df ''details'' of
        None \<Rightarrow>
          (Some (ValueError (''input.csv must contain a '' @ [apostrophe] @ ''details''
                             @ [apostrophe] @ '' column'')), initial_state)
      | Some cells \<Rightarrow>
     (case process_rows (MistralAPI_init mistral_api_key) w (iterrows cells) initial_state
             empty_results of
        (Inl e, st) \<Rightarrow> (Some e, st)
      | (Inr res, st) \<Rightarrow>
          (None, emit (Print (Line ''Results saved to product_information.csv''))
                   (emit (ToCsv res ''product_information.csv'') st)))))))"

section \<open>Vocabulary of the properties\<close>

text \<open>
  A rate-limited outcome: a response with status 429 on which lines 73 to 76 run through to
  \<^verbatim>\<open>continue\<close>, its \<^verbatim>\<open>Retry-After\<close> header absent or a number of whole seconds that
  \<^verbatim>\<open>time.sleep\<close> accepts.
\<close>

definition rate_limited :: "world \<Rightarrow> http_outcome \<Rightarrow> bool" where
  "rate_limited w out =
     (case out of
        Raises e \<Rightarrow> False
      | Response r \<Rightarrow>
          status_code r = 429 \<and>
          (case retry_after r of
             None \<Rightarrow> True
           | Some (IntText n) \<Rightarrow> sleep_error w n = None
           | Some (OtherText s) \<Rightarrow> False))"

text \<open>
  The failures that are not a 429, with the exception each raises in the \<^verbatim>\<open>try\<close> block:
  \<^verbatim>\<open>requests.post\<close> raises (network error, timeout), \<^verbatim>\<open>raise_for_status\<close> rejects the
  status, or the body has not the expected shape.
\<close>

definition failure :: "http_outcome \<Rightarrow> error option" where
  "failure out =
     (case out of
        Raises e \<Rightarrow> Some e
      | Response r \<Rightarrow>
          if status_code r = 429 then None
          else (case raise_for_status r of
                  Some e \<Rightarrow> Some e
                | None \<Rightarrow> (case content r of Inl e \<Rightarrow> Some e | Inr c \<Rightarrow> None)))"

text \<open>
  The number of failures that are not a 429 among the requests sent between two states.
\<close>

definition failures_met :: "world \<Rightarrow> state \<Rightarrow> state \<Rightarrow> nat" where
  "failures_met w st st' =
     length (filter (\<lambda>k. failure (post w k) \<noteq> None) [posts st..<posts st'])"

text \<open>The events that write a file, and those of a trace.\<close>

definition is_write :: "event \<Rightarrow> bool" where
  "is_write ev = (case ev of Save img name \<Rightarrow> True | ToCsv res name \<Rightarrow> True | _ \<Rightarrow> False)"

definition writes :: "state \<Rightarrow> event list" where
  "writes st = filter is_write (trace st)"

text \<open>The names of the image files saved and the tables written, in the order of a trace.\<close>

fun saved :: "event list \<Rightarrow> string list" where
  "saved [] = []"
| "saved (Save img name # evs) = name # saved evs"
| "saved (ev # evs) = saved evs"

fun written_tables :: "event list \<Rightarrow> results list" where
  "written_tables [] = []"
| "written_tables (ToCsv res name # evs) = res # written_tables evs"
| "written_tables (ev # evs) = written_tables evs"

section \<open>Example worlds\<close>

definition ok_response :: response where
  "ok_response = \<lparr>status_code = 200, retry_after = None, content = Inr '' X ''\<rparr>"

definition busy_response :: "header_value option \<Rightarrow> response" where
  "busy_response h =
     \<lparr>status_code = 429, retry_after = h, content = Inl (OtherException ''KeyError'')\<rparr>"

definition example_env :: "string \<Rightarrow> string option" where
  "example_env name =
     (if name = ''MISTRAL_API_KEY'' then Some ''mk''
      else if name = ''TOGETHER_API_KEY'' then Some ''tk''
      else None)"

text \<open>One input row, a text service that always answers and an image service that works.\<close>

definition example_world :: world where
  "example_world =
     \<lparr>getenv = example_env,
      read_csv = Frame [(''details'', [''vintage rock band''])],
      post = (\<lambda>k. Response ok_response),
      images_generate = (\<lambda>k. Inr [''https://example.com/a.png'']),
      requests_get = (\<lambda>k. Inr ''PNG''),
      image_open = (\<lambda>bytes. None),
      image_save = (\<lambda>img name. None),
      sleep_raises = (\<lambda>secs.
        if 9223372036 < secs then Some (OverflowError ''timestamp too large'') else None)\<rparr>"

text \<open>A 429 without header, then two network errors, then answers.\<close>

definition busy_then_errors :: world where
  "busy_then_errors =
     example_world\<lparr>post := (\<lambda>k.
        if k = 0 then Response (busy_response None)
        else if k < 3 then Raises (OtherException ''ConnectionError'')
        else Response ok_response)\<rparr>"

text \<open>The same outcomes without the 429: two network errors, then answers.\<close>

definition errors_then_ok :: world where
  "errors_then_ok =
     example_world\<lparr>post := (\<lambda>k.
        if k < 2 then Raises (OtherException ''ConnectionError'')
        else Response ok_response)\<rparr>"

text \<open>A 429 that names 7 seconds, then one without header, then a third 429.\<close>

definition always_busy :: world where
  "always_busy =
     example_world\<lparr>post := (\<lambda>k.
        if k = 0 then Response (busy_response (Some (IntText 7)))
        else Response (busy_response None))\<rparr>"

text \<open>A network error, a status 500 and a body of the wrong shape.\<close>

definition always_failing :: world where
  "always_failing =
     example_world\<lparr>post := (\<lambda>k.
        if k = 0 then Raises (OtherException ''ConnectionError'')
        else if k = 1 then Response (ok_response\<lparr>status_code := 500\<rparr>)
        else Response (ok_response\<lparr>content := Inl (OtherException ''KeyError'')\<rparr>))\<rparr>"

text \<open>Worlds for the row loop: a failing image service, a failing download, a text
  service that fails in the second row, and
  environments that lack one of the two keys.\<close>

definition image_service_down :: world where
  "image_service_down =
     example_world\<lparr>images_generate := (\<lambda>k. Inl (OtherException ''ServiceUnavailable''))\<rparr>"

definition download_fails :: world where
  "download_fails =
     example_world\<lparr>requests_get := (\<lambda>k. Inl (OtherException ''ConnectionError''))\<rparr>"

definition text_fails_in_second_row :: world where
  "text_fails_in_second_row =
     example_world\<lparr>read_csv := Frame [(''details'', [''cats'', ''dogs''])],
       post := (\<lambda>k. if k < 4 then Response ok_response
                     else Raises (OtherException ''ConnectionError''))\<rparr>"

definition no_mistral_key :: world where
  "no_mistral_key =
     example_world\<lparr>getenv := (\<lambda>name. if name = ''TOGETHER_API_KEY'' then Some ''tk'' else None)\<rparr>"

definition no_together_key :: world where
  "no_together_key =
     example_world\<lparr>getenv := (\<lambda>name. if name = ''MISTRAL_API_KEY'' then Some ''mk'' else None)\<rparr>"

text \<open>
  Worlds for the rate limit: a 429 that names 7 seconds, an answer, a 429 without header,
  then answers; 429 responses whose header is an HTTP date; a 429 with such a header and
  then answers; a 429 that names 10000000000 seconds and then answers.
\<close>

definition busy_twice :: world where
  "busy_twice =
     example_world\<lparr>post := (\<lambda>k.
        if k = 0 then Response (busy_response (Some (IntText 7)))
        else if k = 2 then Response (busy_response None)
        else Response ok_response)\<rparr>"

definition always_busy_dated :: world where
  "always_busy_dated =
     example_world\<lparr>post := (\<lambda>k.
        Response (busy_response (Some (OtherText ''Wed, 21 Oct 2015 07:28:00 GMT''))))\<rparr>"

definition busy_dated_then_ok :: world where
  "busy_dated_then_ok =
     example_world\<lparr>post := (\<lambda>k.
        if k = 0
        then Response (busy_response (Some (OtherText ''Wed, 21 Oct 2015 07:28:00 GMT'')))
        else Response ok_response)\<rparr>"

definition busy_huge_then_ok :: world where
  "busy_huge_then_ok =
     example_world\<lparr>post := (\<lambda>k.
        if k = 0 then Response (busy_response (Some (IntText 10000000000)))
        else Response ok_response)\<rparr>"

text \<open>
  Worlds for the saved image: one where \<^verbatim>\<open>image.save\<close> raises on image data that
  \<^verbatim>\<open>Image.open\<close> accepted, and one with three rows where the image service fails in the
  second.
\<close>

definition save_fails :: world where
  "save_fails =
     example_world\<lparr>image_save := (\<lambda>img name. Some (OSError ''image file is truncated''))\<rparr>"

definition second_image_fails :: world where
  "second_image_fails =
     example_world\<lparr>read_csv := Frame [(''details'', [''cats'', ''dogs'', ''fish''])],
       images_generate := (\<lambda>k. if k = 1 then Inl (OtherException ''ServiceUnavailable'')
                                else Inr [''https://example.com/b.png''])\<rparr>"

section \<open>The retry loop\<close>

lemma emit_simps:
  "posts (emit ev st) = posts st"
  "image_calls (emit ev st) = image_calls st"
  "trace (emit ev st) = trace st @ [ev]"
  by (simp_all add: emit_def)

lemma py_range_3: "py_range 3 = [0, 1, 2]"
  by (simp add: py_range_def upt_rec numeral_3_eq_3 eval_nat_numeral)

lemma init_simps:
  "max_retries (MistralAPI_init key) = 3"
  "retry_delay (MistralAPI_init key) = 2"
  by (simp_all add: MistralAPI_init_def)

lemma sleep_error_small: "0 \<le> secs \<Longrightarrow> secs \<le> 1000000 \<Longrightarrow> sleep_error w secs = None"
  by (simp add: sleep_error_def)

lemma time_sleep_accepted:
  "sleep_error w secs = None \<Longrightarrow> time_sleep w secs st = (Inr (), emit (Sleep secs) st)"
  by (simp add: time_sleep_def)

lemma time_sleep_rejected:
  "sleep_error w secs = Some e \<Longrightarrow> time_sleep w secs st = (Inl e, st)"
  by (simp add: time_sleep_def)

lemma try_block_429:
  assumes "post w (posts st) = Response r" "status_code r = 429"
    and "wait_time self attempt r = Inr secs" "sleep_error w secs = None"
  shows "try_block self w prompt attempt st =
    (Continue, st\<lparr>posts := posts st + 1,
        trace := trace st @ [Post prompt, Print (RateLimitedMsg secs), Sleep secs]\<rparr>)"
  using assms by (simp add: try_block_def requests_post_def time_sleep_accepted emit_def)

lemma try_block_rejected_sleep:
  assumes "post w (posts st) = Response r" "status_code r = 429"
    and "wait_time self attempt r = Inr secs" "sleep_error w secs = Some e"
  shows "try_block self w prompt attempt st =
    (Raise e, st\<lparr>posts := posts st + 1,
        trace := trace st @ [Post prompt, Print (RateLimitedMsg secs)]\<rparr>)"
  using assms by (simp add: try_block_def requests_post_def time_sleep_rejected emit_def)

lemma try_block_ok:
  assumes "post w (posts st) = Response r" "status_code r = 200" "content r = Inr c"
  shows "try_block self w prompt attempt st =
    (Return (strip c), st\<lparr>posts := posts st + 1, trace := trace st @ [Post prompt]\<rparr>)"
  using assms by (simp add: try_block_def requests_post_def raise_for_status_def emit_def)

lemma try_block_other_header:
  assumes "post w (posts st) = Response r" "status_code r = 429"
    and "retry_after r = Some (OtherText s)"
  shows "try_block self w prompt attempt st =
    (Raise (ValueError ''invalid literal for int() with base 10''),
     st\<lparr>posts := posts st + 1, trace := trace st @ [Post prompt]\<rparr>)"
  using assms by (simp add: try_block_def requests_post_def wait_time_def emit_def)

lemma try_block_failure:
  assumes "failure (post w (posts st)) = Some e"
  shows "try_block self w prompt attempt st =
    (Raise e, st\<lparr>posts := posts st + 1, trace := trace st @ [Post prompt]\<rparr>)"
  using assms
  by (auto simp add: failure_def try_block_def requests_post_def emit_def
      split: http_outcome.splits if_splits option.splits sum.splits)

lemma time_sleep_posts: "posts (snd (time_sleep w secs st)) = posts st"
  by (simp add: time_sleep_def emit_def split: option.splits)

lemma time_sleep_posts_eq: "time_sleep w secs st = (r, st') \<Longrightarrow> posts st' = posts st"
  by (auto simp add: time_sleep_def emit_def split: option.splits)

lemma try_block_posts: "posts (snd (try_block self w prompt attempt st)) = posts st + 1"
  by (auto simp add: try_block_def requests_post_def emit_simps
      split: http_outcome.splits sum.splits option.splits prod.splits
      dest!: time_sleep_posts_eq)

lemma attempts_429:
  assumes "post w (posts st) = Response r" "status_code r = 429"
    and "wait_time self attempt r = Inr secs" "sleep_error w secs = None"
  shows "attempts self w prompt (attempt # rest) st =
    attempts self w prompt rest (st\<lparr>posts := posts st + 1,
        trace := trace st @ [Post prompt, Print (RateLimitedMsg secs), Sleep secs]\<rparr>)"
  by (simp add: try_block_429 [OF assms])

lemma attempts_failure_retry:
  assumes "failure (post w (posts st)) = Some e" "attempt < max_retries self - 1"
    "sleep_error w (retry_delay self) = None"
  shows "attempts self w prompt (attempt # rest) st =
    attempts self w prompt rest (st\<lparr>posts := posts st + 1,
        trace := trace st @ [Post prompt, Print (RetryingMsg e (retry_delay self)),
                             Sleep (retry_delay self)]\<rparr>)"
  using assms(2,3) by (simp add: try_block_failure [OF assms(1)] time_sleep_accepted emit_def)

lemma attempts_failure_last:
  assumes "failure (post w (posts st)) = Some e" "\<not> attempt < max_retries self - 1"
  shows "attempts self w prompt (attempt # rest) st =
    (Inl e, st\<lparr>posts := posts st + 1, trace := trace st @ [Post prompt]\<rparr>)"
  using assms(2) by (simp add: try_block_failure [OF assms(1)])

lemma attempts_ok:
  assumes "post w (posts st) = Response r" "status_code r = 200" "content r = Inr c"
  shows "attempts self w prompt (attempt # rest) st =
    (Inr (Some (strip c)), st\<lparr>posts := posts st + 1, trace := trace st @ [Post prompt]\<rparr>)"
  by (simp add: try_block_ok [OF assms])

lemma attempts_429_then_ok:
  assumes "post w (posts st) = Response r" "status_code r = 429"
    and "wait_time self attempt r = Inr secs" "sleep_error w secs = None"
    and "post w (posts st + 1) = Response r'" "status_code r' = 200" "content r' = Inr c"
  shows "attempts self w prompt (attempt # next_attempt # rest) st =
    (Inr (Some (strip c)),
     st\<lparr>posts := posts st + 2,
        trace := trace st @ [Post prompt, Print (RateLimitedMsg secs), Sleep secs,
                             Post prompt]\<rparr>)"
proof -
  let ?st1 = "st\<lparr>posts := posts st + 1,
        trace := trace st @ [Post prompt, Print (RateLimitedMsg secs), Sleep secs]\<rparr>"
  have "post w (posts ?st1) = Response r'"
    using assms(5) by simp
  from attempts_ok [OF this assms(6,7), of self prompt next_attempt rest]
  show ?thesis
    unfolding attempts_429 [OF assms(1-4)] by simp
qed

text \<open>
  Claim C8, as amended. On a response with status 429 whose \<^verbatim>\<open>Retry-After\<close> header is a
  number of whole seconds that \<^verbatim>\<open>time.sleep\<close> accepts, the client sleeps exactly that
  duration; on one without the header it sleeps \<open>retry_delay\<close> times the attempt number
  (the attempt index plus one). The sleep follows the request and the rate-limit line, and
  the next request, when an attempt is left, follows the sleep. A header that \<^verbatim>\<open>int\<close>
  rejects raises \<^verbatim>\<open>ValueError\<close> in the \<^verbatim>\<open>try\<close> block, and a duration that
  \<^verbatim>\<open>time.sleep\<close> rejects raises there after the rate-limit line, without a sleep.
\<close>

theorem rate_limit_sleep:
  assumes "post w (posts st) = Response r" and "status_code r = 429"
  shows "(\<forall>n. retry_after r = Some (IntText n) \<and> sleep_error w n = None \<longrightarrow>
            try_block self w prompt attempt st =
              (Continue,
               st\<lparr>posts := posts st + 1,
                  trace := trace st @ [Post prompt, Print (RateLimitedMsg n), Sleep n]\<rparr>))
       \<and> (retry_after r = None \<and> sleep_error w (retry_delay self * (attempt + 1)) = None \<longrightarrow>
            try_block self w prompt attempt st =
              (Continue,
               st\<lparr>posts := posts st + 1,
                  trace := trace st @ [Post prompt,
                     Print (RateLimitedMsg (retry_delay self * (attempt + 1))),
                     Sleep (retry_delay self * (attempt + 1))]\<rparr>))
       \<and> (\<forall>n r' c. retry_after r = Some (IntText n) \<and> sleep_error w n = None
              \<and> post w (posts st + 1) = Response r' \<and> status_code r' = 200
              \<and> content r' = Inr c \<longrightarrow>
            attempts self w prompt (attempt # next_attempt # rest) st =
              (Inr (Some (strip c)),
               st\<lparr>posts := posts st + 2,
                  trace := trace st @ [Post prompt, Print (RateLimitedMsg n), Sleep n,
                                       Post prompt]\<rparr>))
       \<and> (\<forall>r' c. retry_after r = None
              \<and> sleep_error w (retry_delay self * (attempt + 1)) = None
              \<and> post w (posts st + 1) = Response r' \<and> status_code r' = 200
              \<and> content r' = Inr c \<longrightarrow>
            attempts self w prompt (attempt # next_attempt # rest) st =
              (Inr (Some (strip c)),
               st\<lparr>posts := posts st + 2,
                  trace := trace st @ [Post prompt,
                     Print (RateLimitedMsg (retry_delay self * (attempt + 1))),
                     Sleep (retry_delay self * (attempt + 1)), Post prompt]\<rparr>))
       \<and> (\<forall>s. retry_after r = Some (OtherText s) \<longrightarrow>
            try_block self w prompt attempt st =
              (Raise (ValueError ''invalid literal for int() with base 10''),
               st\<lparr>posts := posts st + 1, trace := trace st @ [Post prompt]\<rparr>))
       \<and> (\<forall>n e. retry_after r = Some (IntText n) \<and> sleep_error w n = Some e \<longrightarrow>
            try_block self w prompt attempt st =
              (Raise e,
               st\<lparr>posts := posts st + 1,
                  trace := trace st @ [Post prompt, Print (RateLimitedMsg n)]\<rparr>))"
proof -
  have hdr: "wait_time self attempt r = Inr n" if "retry_after r = Some (IntText n)" for n
    using that by (simp add: wait_time_def)
  have dflt: "wait_time self attempt r = Inr (retry_delay self * (attempt + 1))"
    if "retry_after r = None"
    using that by (simp add: wait_time_def)
  have 1: "try_block self w prompt attempt st =
      (Continue,
       st\<lparr>posts := posts st + 1,
          trace := trace st @ [Post prompt, Print (RateLimitedMsg n), Sleep n]\<rparr>)"
    if h: "retry_after r = Some (IntText n) \<and> sleep_error w n = None" for n
    by (rule try_block_429 [OF assms hdr [OF h [THEN conjunct1]] h [THEN conjunct2]])
  have 2: "try_block self w prompt attempt st =
      (Continue,
       st\<lparr>posts := posts st + 1,
          trace := trace st @ [Post prompt,
             Print (RateLimitedMsg (retry_delay self * (attempt + 1))),
             Sleep (retry_delay self * (attempt + 1))]\<rparr>)"
    if h: "retry_after r = None \<and> sleep_error w (retry_delay self * (attempt + 1)) = None"
    by (rule try_block_429 [OF assms dflt [OF h [THEN conjunct1]] h [THEN conjunct2]])
  have 3: "attempts self w prompt (attempt # next_attempt # rest) st =
      (Inr (Some (strip c)),
       st\<lparr>posts := posts st + 2,
          trace := trace st @ [Post prompt, Print (RateLimitedMsg n), Sleep n,
                               Post prompt]\<rparr>)"
    if h: "retry_after r = Some (IntText n) \<and> sleep_error w n = None
        \<and> post w (posts st + 1) = Response r' \<and> status_code r' = 200 \<and> content r' = Inr c"
    for n r' c
  proof -
    from h have a: "retry_after r = Some (IntText n)" and b: "sleep_error w n = None"
      and c: "post w (posts st + 1) = Response r'" "status_code r' = 200" "content r' = Inr c"
      by simp_all
    show ?thesis by (rule attempts_429_then_ok [OF assms hdr [OF a] b c])
  qed
  have 4: "attempts self w prompt (attempt # next_attempt # rest) st =
      (Inr (Some (strip c)),
       st\<lparr>posts := posts st + 2,
          trace := trace st @ [Post prompt,
             Print (RateLimitedMsg (retry_delay self * (attempt + 1))),
             Sleep (retry_delay self * (attempt + 1)), Post prompt]\<rparr>)"
    if h: "retry_after r = None \<and> sleep_error w (retry_delay self * (attempt + 1)) = None
        \<and> post w (posts st + 1) = Response r' \<and> status_code r' = 200 \<and> content r' = Inr c"
    for r' c
  proof -
    from h have a: "retry_after r = None"
      and b: "sleep_error w (retry_delay self * (attempt + 1)) = None"
      and c: "post w (posts st + 1) = Response r'" "status_code r' = 200" "content r' = Inr c"
      by simp_all
    show ?thesis by (rule attempts_429_then_ok [OF assms dflt [OF a] b c])
  qed
  have 5: "try_block self w prompt attempt st =
      (Raise (ValueError ''invalid literal for int() with base 10''),
       st\<lparr>posts := posts st + 1, trace := trace st @ [Post prompt]\<rparr>)"
    if "retry_after r = Some (OtherText s)" for s
    using that by (rule try_block_other_header [OF assms])
  have 6: "try_block self w prompt attempt st =
      (Raise e,
       st\<lparr>posts := posts st + 1,
          trace := trace st @ [Post prompt, Print (RateLimitedMsg n)]\<rparr>)"
    if h: "retry_after r = Some (IntText n) \<and> sleep_error w n = Some e" for n e
    by (rule try_block_rejected_sleep [OF assms hdr [OF h [THEN conjunct1]] h [THEN conjunct2]])
  show ?thesis
    by (intro conjI allI impI; erule 1 2 3 4 5 6)
qed

lemma rate_limited_wait:
  assumes "rate_limited w (post w k)" "sleep_error w (retry_delay self * (attempt + 1)) = None"
  obtains r secs where "post w k = Response r" "status_code r = 429"
    "wait_time self attempt r = Inr secs" "sleep_error w secs = None"
proof -
  from assms(1) obtain r where r: "post w k = Response r" "status_code r = 429"
    and h: "(case retry_after r of None \<Rightarrow> True | Some (IntText n) \<Rightarrow> sleep_error w n = None
              | Some (OtherText s) \<Rightarrow> False)"
    by (auto simp add: rate_limited_def split: http_outcome.splits)
  show thesis
  proof (cases "retry_after r")
    case None
    then have "wait_time self attempt r = Inr (retry_delay self * (attempt + 1))"
      by (simp add: wait_time_def)
    with assms(2) show thesis using r that by blast
  next
    case (Some hv)
    with h obtain n where "hv = IntText n" "sleep_error w n = None"
      by (cases hv) auto
    with Some have "wait_time self attempt r = Inr n" by (simp add: wait_time_def)
    with \<open>sleep_error w n = None\<close> show thesis using r that by blast
  qed
qed

lemma attempts_all_429:
  "\<forall>a\<in>set as. sleep_error w (retry_delay self * (a + 1)) = None \<Longrightarrow>
   \<forall>i<length as. rate_limited w (post w (posts st + i)) \<Longrightarrow>
    fst (attempts self w prompt as st) = Inr None \<and>
    posts (snd (attempts self w prompt as st)) = posts st + length as"
proof (induction as arbitrary: st)
  case Nil
  then show ?case by simp
next
  case (Cons a as)
  from Cons.prems have "rate_limited w (post w (posts st))"
    "sleep_error w (retry_delay self * (a + 1)) = None"
    by auto
  then obtain r secs where r: "post w (posts st) = Response r" "status_code r = 429"
    "wait_time self a r = Inr secs" "sleep_error w secs = None"
    using rate_limited_wait by blast
  let ?st1 = "st\<lparr>posts := posts st + 1,
        trace := trace st @ [Post prompt, Print (RateLimitedMsg secs), Sleep secs]\<rparr>"
  have step: "attempts self w prompt (a # as) st = attempts self w prompt as ?st1"
    by (rule attempts_429 [OF r])
  have "\<forall>i<length as. rate_limited w (post w (posts ?st1 + i))"
  proof (intro allI impI)
    fix i assume "i < length as"
    then have "rate_limited w (post w (posts st + Suc i))"
      using Cons.prems(2) by auto
    then show "rate_limited w (post w (posts ?st1 + i))" by simp
  qed
  moreover have "\<forall>a\<in>set as. sleep_error w (retry_delay self * (a + 1)) = None"
    using Cons.prems(1) by simp
  ultimately have "fst (attempts self w prompt as ?st1) = Inr None \<and>
    posts (snd (attempts self w prompt as ?st1)) = posts ?st1 + length as"
    by (rule Cons.IH [rotated])
  then show ?case unfolding step by simp
qed

lemma request_replace_fst:
  "fst (request_replace self w prompt st) =
     (case fst (make_request self w prompt st) of
        Inl e \<Rightarrow> Inl e
      | Inr None \<Rightarrow> Inl (AttributeError ''NoneType object has no attribute replace'')
      | Inr (Some s) \<Rightarrow> Inr (replace_quote s))"
  by (simp add: request_replace_def split: prod.splits sum.splits option.splits)

lemma generate_description_fst:
  "fst (generate_description self w detail ttl st) =
     (case fst (request_replace self w (description_prompt detail ttl)
                  (emit (Print (Line ''Generating description...'')) st)) of
        Inl e \<Rightarrow> Inl e
      | Inr d \<Rightarrow> Inr (d @ get_template_description))"
  by (simp add: generate_description_def split: prod.splits sum.splits)

text \<open>
  Claim C3, as amended. When each of the three loop iterations of \<^verbatim>\<open>_make_request\<close>
  receives a 429 whose \<^verbatim>\<open>Retry-After\<close> header is absent or a number of whole seconds that
  \<^verbatim>\<open>time.sleep\<close> accepts, the loop ends through \<^verbatim>\<open>continue\<close> and the function returns
  \<^verbatim>\<open>None\<close> after three requests, neither raising nor returning a string; the
  \<^verbatim>\<open>.replace\<close> of each of the four callers then raises \<^verbatim>\<open>AttributeError\<close> on it.
\<close>

theorem all_429_returns_None:
  assumes "\<forall>i<3. rate_limited w (post w (posts st + i))"
  shows "fst (make_request (MistralAPI_init key) w prompt st) = Inr None
    \<and> posts (snd (make_request (MistralAPI_init key) w prompt st)) = posts st + 3
    \<and> fst (generate_title (MistralAPI_init key) w detail st) =
        Inl (AttributeError ''NoneType object has no attribute replace'')
    \<and> fst (generate_description (MistralAPI_init key) w detail ttl st) =
        Inl (AttributeError ''NoneType object has no attribute replace'')
    \<and> fst (generate_image_prompt (MistralAPI_init key) w detail st) =
        Inl (AttributeError ''NoneType object has no attribute replace'')
    \<and> fst (generate_tags (MistralAPI_init key) w detail st) =
        Inl (AttributeError ''NoneType object has no attribute replace'')"
proof -
  let ?api = "MistralAPI_init key"
  have all: "fst (make_request ?api w p s) = Inr None
      \<and> posts (snd (make_request ?api w p s)) = posts s + 3"
    if "posts s = posts st" for p s
  proof -
    have "\<forall>i<length [0, 1, 2 :: int]. rate_limited w (post w (posts s + i))"
      using assms that by simp
    moreover have "\<forall>a\<in>set [0, 1, 2 :: int]. sleep_error w (retry_delay ?api * (a + 1)) = None"
      by (simp add: init_simps sleep_error_def)
    ultimately show ?thesis
      using attempts_all_429 [of "[0, 1, 2]" w ?api s p]
      by (simp add: make_request_def init_simps py_range_3)
  qed
  have none: "fst (request_replace ?api w p (emit ev st)) =
      Inl (AttributeError ''NoneType object has no attribute replace'')" for p ev
    by (simp add: request_replace_fst all emit_simps)
  show ?thesis
    using all [of st]
    by (simp add: generate_title_def generate_description_fst generate_image_prompt_def
        generate_tags_def none)
qed

lemma make_request_three_failures:
  assumes "failure (post w (posts st)) = Some e0"
    and "failure (post w (posts st + 1)) = Some e1"
    and "failure (post w (posts st + 2)) = Some e2"
  shows "make_request (MistralAPI_init key) w prompt st =
    (Inl e2, st\<lparr>posts := posts st + 3,
         trace := trace st @ [Post prompt, Print (RetryingMsg e0 2), Sleep 2,
                              Post prompt, Print (RetryingMsg e1 2), Sleep 2,
                              Post prompt]\<rparr>)"
proof -
  let ?api = "MistralAPI_init key"
  let ?st1 = "st\<lparr>posts := posts st + 1,
        trace := trace st @ [Post prompt, Print (RetryingMsg e0 2), Sleep 2]\<rparr>"
  let ?st2 = "st\<lparr>posts := posts st + 2,
        trace := trace st @ [Post prompt, Print (RetryingMsg e0 2), Sleep 2,
                             Post prompt, Print (RetryingMsg e1 2), Sleep 2]\<rparr>"
  have a0: "attempts ?api w prompt [0, 1, 2] st = attempts ?api w prompt [1, 2] ?st1"
    using attempts_failure_retry [OF assms(1), of 0 ?api prompt "[1, 2]"]
    by (simp add: init_simps sleep_error_def)
  have "failure (post w (posts ?st1)) = Some e1"
    using assms(2) by simp
  from attempts_failure_retry [OF this, of 1 ?api prompt "[2]"]
  have a1: "attempts ?api w prompt [1, 2] ?st1 = attempts ?api w prompt [2] ?st2"
    by (simp add: init_simps sleep_error_def)
  have "failure (post w (posts ?st2)) = Some e2"
    using assms(3) by simp
  from attempts_failure_last [OF this, of 2 ?api prompt "[]"]
  have a2: "attempts ?api w prompt [2] ?st2 =
    (Inl e2, st\<lparr>posts := posts st + 3,
         trace := trace st @ [Post prompt, Print (RetryingMsg e0 2), Sleep 2,
                              Post prompt, Print (RetryingMsg e1 2), Sleep 2,
                              Post prompt]\<rparr>)"
    by (simp add: init_simps)
  show ?thesis
    by (simp only: make_request_def init_simps py_range_3 a0 a1 a2)
qed

text \<open>
  Claim C2. When each of the three attempts meets a failure that is not a 429,
  \<^verbatim>\<open>_make_request\<close> raises the error of the third attempt after exactly three requests,
  having slept the fixed \<open>retry_delay\<close> of 2 seconds after the first and after the second.
\<close>

theorem repeated_failure_raises:
  assumes "failure (post w (posts st)) = Some e0"
    and "failure (post w (posts st + 1)) = Some e1"
    and "failure (post w (posts st + 2)) = Some e2"
  shows "make_request (MistralAPI_init key) w prompt st =
    (Inl e2, st\<lparr>posts := posts st + 3,
         trace := trace st @ [Post prompt, Print (RetryingMsg e0 2), Sleep 2,
                              Post prompt, Print (RetryingMsg e1 2), Sleep 2,
                              Post prompt]\<rparr>)"
  using assms by (rule make_request_three_failures)

lemma attempts_posts_le:
  "posts (snd (attempts self w prompt as st)) \<le> posts st + length as"
proof (induction as arbitrary: st)
  case Nil
  then show ?case by simp
next
  case (Cons a as)
  obtain fl st1 where tb: "try_block self w prompt a st = (fl, st1)"
    by (cases "try_block self w prompt a st")
  then have p1: "posts st1 = posts st + 1"
    using try_block_posts [of self w prompt a st] by simp
  show ?case
  proof (cases fl)
    case (Return s)
    then show ?thesis using tb p1 by simp
  next
    case Continue
    then show ?thesis using tb p1 Cons.IH [of st1] by simp
  next
    case (Raise e)
    let ?st' = "emit (Print (RetryingMsg e (retry_delay self))) st1"
    obtain r st2 where ts: "time_sleep w (retry_delay self) ?st' = (r, st2)"
      by (cases "time_sleep w (retry_delay self) ?st'")
    then have p2: "posts st2 = posts st + 1"
      using time_sleep_posts [of w "retry_delay self" ?st'] p1 by (simp add: emit_simps)
    show ?thesis
      using tb Raise ts p1 p2 Cons.IH [of st2]
      by (cases r) (simp_all split: if_splits)
  qed
qed

lemma attempts_raise_posts:
  assumes "sleep_error w (retry_delay self) = None"
  shows "\<forall>a\<in>set (butlast as). a < max_retries self - 1 \<Longrightarrow>
    fst (attempts self w prompt as st) = Inl e \<Longrightarrow>
    posts (snd (attempts self w prompt as st)) = posts st + length as"
proof (induction as arbitrary: st)
  case Nil
  then show ?case by simp
next
  case (Cons a as)
  obtain fl st1 where tb: "try_block self w prompt a st = (fl, st1)"
    by (cases "try_block self w prompt a st")
  then have p1: "posts st1 = posts st + 1"
    using try_block_posts [of self w prompt a st] by simp
  have rest: "\<forall>a\<in>set (butlast as). a < max_retries self - 1"
    using Cons.prems(1) by (auto split: if_splits)
  show ?case
  proof (cases fl)
    case (Return s)
    then show ?thesis using tb Cons.prems(2) by simp
  next
    case Continue
    then show ?thesis using tb p1 Cons.IH [OF rest, of st1] Cons.prems(2) by simp
  next
    case (Raise e')
    show ?thesis
    proof (cases "a < max_retries self - 1")
      case True
      let ?st2 = "emit (Sleep (retry_delay self))
                    (emit (Print (RetryingMsg e' (retry_delay self))) st1)"
      have eq: "attempts self w prompt (a # as) st = attempts self w prompt as ?st2"
        using tb Raise True assms by (simp add: time_sleep_accepted)
      have "posts ?st2 = posts st + 1" using p1 by (simp add: emit_simps)
      then show ?thesis
        using Cons.IH [OF rest, of ?st2] Cons.prems(2) unfolding eq by simp
    next
      case False
      then have "as = []" using Cons.prems(1) by (auto split: if_splits)
      then show ?thesis using tb Raise False p1 by simp
    qed
  qed
qed

text \<open>
  Claim C1, as amended. Every loop iteration uses up one of the three attempts, a 429 as
  much as a failure: \<^verbatim>\<open>_make_request\<close> never sends more than three requests, and when it
  raises it has sent exactly three, whatever the outcomes of the first two were.
\<close>

theorem rate_limit_uses_attempt:
  "posts (snd (make_request (MistralAPI_init key) w prompt st)) \<le> posts st + 3
   \<and> (\<forall>e. fst (make_request (MistralAPI_init key) w prompt st) = Inl e \<longrightarrow>
         posts (snd (make_request (MistralAPI_init key) w prompt st)) = posts st + 3)"
proof (intro conjI allI impI)
  show "posts (snd (make_request (MistralAPI_init key) w prompt st)) \<le> posts st + 3"
    using attempts_posts_le [of "MistralAPI_init key" w prompt "[0, 1, 2]" st]
    by (simp add: make_request_def init_simps py_range_3)
next
  fix e assume "fst (make_request (MistralAPI_init key) w prompt st) = Inl e"
  then show "posts (snd (make_request (MistralAPI_init key) w prompt st)) = posts st + 3"
    using attempts_raise_posts [of w "MistralAPI_init key" "[0, 1, 2]" prompt st e]
    by (simp add: make_request_def init_simps py_range_3 sleep_error_def)
qed

subsection \<open>The retry loop on the example worlds\<close>

lemmas world_defs = example_world_def busy_then_errors_def errors_then_ok_def always_busy_def
  always_failing_def ok_response_def busy_response_def busy_twice_def always_busy_dated_def
  busy_dated_then_ok_def busy_huge_then_ok_def

theorem rate_limit_sleep_witness:
  "try_block (MistralAPI_init ''k'') busy_twice ''p'' 0 initial_state =
     (Continue, \<lparr>posts = 1, image_calls = 0,
                 trace = [Post ''p'', Print (RateLimitedMsg 7), Sleep 7]\<rparr>)
   \<and> attempts (MistralAPI_init ''k'') busy_twice ''p'' [0, 1, 2] initial_state =
     (Inr (Some ''X''),
      \<lparr>posts = 2, image_calls = 0,
       trace = [Post ''p'', Print (RateLimitedMsg 7), Sleep 7, Post ''p'']\<rparr>)
   \<and> try_block (MistralAPI_init ''k'') busy_twice ''p'' 1
       \<lparr>posts = 2, image_calls = 0, trace = []\<rparr> =
     (Continue, \<lparr>posts = 3, image_calls = 0,
                 trace = [Post ''p'', Print (RateLimitedMsg 4), Sleep 4]\<rparr>)
   \<and> attempts (MistralAPI_init ''k'') busy_twice ''p'' [1, 2]
       \<lparr>posts = 2, image_calls = 0, trace = []\<rparr> =
     (Inr (Some ''X''),
      \<lparr>posts = 4, image_calls = 0,
       trace = [Post ''p'', Print (RateLimitedMsg 4), Sleep 4, Post ''p'']\<rparr>)
   \<and> try_block (MistralAPI_init ''k'') busy_dated_then_ok ''p'' 0 initial_state =
     (Raise (ValueError ''invalid literal for int() with base 10''),
      \<lparr>posts = 1, image_calls = 0, trace = [Post ''p'']\<rparr>)
   \<and> try_block (MistralAPI_init ''k'') busy_huge_then_ok ''p'' 0 initial_state =
     (Raise (OverflowError ''timestamp too large''),
      \<lparr>posts = 1, image_calls = 0,
       trace = [Post ''p'', Print (RateLimitedMsg 10000000000)]\<rparr>)"
proof -
  let ?api = "MistralAPI_init ''k''"
  let ?st = "\<lparr>posts = 2, image_calls = 0, trace = []\<rparr>"
  have a: "post busy_twice (posts initial_state) = Response (busy_response (Some (IntText 7)))"
    "status_code (busy_response (Some (IntText 7))) = 429"
    by (simp_all add: world_defs initial_state_def)
  note ta = rate_limit_sleep [OF a, where self = ?api and prompt = "''p''" and attempt = 0
      and next_attempt = 1 and rest = "[2]"]
  have ha: "retry_after (busy_response (Some (IntText 7))) = Some (IntText 7)
      \<and> sleep_error busy_twice 7 = None"
    by (simp add: busy_response_def sleep_error_def)
  have ha': "retry_after (busy_response (Some (IntText 7))) = Some (IntText 7)
      \<and> sleep_error busy_twice 7 = None
      \<and> post busy_twice (posts initial_state + 1) = Response ok_response
      \<and> status_code ok_response = 200 \<and> content ok_response = Inr '' X ''"
    by (simp add: world_defs sleep_error_def initial_state_def)
  have b: "post busy_twice (posts ?st) = Response (busy_response None)"
    "status_code (busy_response None) = 429"
    by (simp_all add: world_defs)
  note tb = rate_limit_sleep [OF b, where self = ?api and prompt = "''p''" and attempt = 1
      and next_attempt = 2 and rest = "[]"]
  have hb: "retry_after (busy_response None) = None
      \<and> sleep_error busy_twice (retry_delay ?api * (1 + 1)) = None"
    by (simp add: busy_response_def sleep_error_def init_simps)
  have hb': "retry_after (busy_response None) = None
      \<and> sleep_error busy_twice (retry_delay ?api * (1 + 1)) = None
      \<and> post busy_twice (posts ?st + 1) = Response ok_response
      \<and> status_code ok_response = 200 \<and> content ok_response = Inr '' X ''"
    by (simp add: world_defs sleep_error_def init_simps)
  have c: "post busy_dated_then_ok (posts initial_state) =
      Response (busy_response (Some (OtherText ''Wed, 21 Oct 2015 07:28:00 GMT'')))"
    "status_code (busy_response (Some (OtherText ''Wed, 21 Oct 2015 07:28:00 GMT''))) = 429"
    by (simp_all add: world_defs initial_state_def)
  note tc = rate_limit_sleep [OF c, where self = ?api and prompt = "''p''" and attempt = 0]
  have hc: "retry_after (busy_response (Some (OtherText ''Wed, 21 Oct 2015 07:28:00 GMT''))) =
      Some (OtherText ''Wed, 21 Oct 2015 07:28:00 GMT'')"
    by (simp add: busy_response_def)
  have d: "post busy_huge_then_ok (posts initial_state) =
      Response (busy_response (Some (IntText 10000000000)))"
    "status_code (busy_response (Some (IntText 10000000000))) = 429"
    by (simp_all add: world_defs initial_state_def)
  note td = rate_limit_sleep [OF d, where self = ?api and prompt = "''p''" and attempt = 0]
  have hd: "retry_after (busy_response (Some (IntText 10000000000))) = Some (IntText 10000000000)
      \<and> sleep_error busy_huge_then_ok 10000000000 = Some (OverflowError ''timestamp too large'')"
    by (simp add: world_defs sleep_error_def)
  have s: "strip '' X '' = ''X''"
    by (simp add: strip_def isspace_def)
  note facts =
    ta [THEN conjunct1, rule_format, OF ha]
    ta [THEN conjunct2, THEN conjunct2, THEN conjunct1, rule_format, OF ha']
    tb [THEN conjunct2, THEN conjunct1, rule_format, OF hb]
    tb [THEN conjunct2, THEN conjunct2, THEN conjunct2, THEN conjunct1, rule_format, OF hb']
    tc [THEN conjunct2, THEN conjunct2, THEN conjunct2, THEN conjunct2, THEN conjunct1,
        rule_format, OF hc]
    td [THEN conjunct2, THEN conjunct2, THEN conjunct2, THEN conjunct2, THEN conjunct2,
        rule_format, OF hd]
  show ?thesis
    using facts
    by (simp add: initial_state_def init_simps s del: attempts.simps)
qed

text \<open>
  Claim C8 as the specification states it fails on a header that is present and is not a
  number of seconds that can be slept: on an HTTP date the client sleeps the fixed 2 seconds
  of the \<^verbatim>\<open>except\<close> branch, and on 10000000000 it prints the rate-limit line and then
  does the same.
\<close>

theorem retry_after_sleep_counterexample:
  "make_request (MistralAPI_init ''k'') busy_dated_then_ok ''p'' initial_state =
     (Inr (Some ''X''),
      \<lparr>posts = 2, image_calls = 0,
       trace = [Post ''p'',
                Print (RetryingMsg (ValueError ''invalid literal for int() with base 10'') 2),
                Sleep 2, Post ''p'']\<rparr>)
   \<and> make_request (MistralAPI_init ''k'') busy_huge_then_ok ''p'' initial_state =
     (Inr (Some ''X''),
      \<lparr>posts = 2, image_calls = 0,
       trace = [Post ''p'', Print (RateLimitedMsg 10000000000),
                Print (RetryingMsg (OverflowError ''timestamp too large'') 2),
                Sleep 2, Post ''p'']\<rparr>)"
  by (simp add: make_request_def init_simps py_range_3 try_block_def requests_post_def
      wait_time_def time_sleep_def sleep_error_def emit_def world_defs initial_state_def
      raise_for_status_def strip_def isspace_def)

theorem all_429_returns_None_witness:
  "fst (make_request (MistralAPI_init ''k'') always_busy ''p'' initial_state) = Inr None
   \<and> posts (snd (make_request (MistralAPI_init ''k'') always_busy ''p'' initial_state)) = 3
   \<and> fst (generate_title (MistralAPI_init ''k'') always_busy ''cats'' initial_state) =
        Inl (AttributeError ''NoneType object has no attribute replace'')
   \<and> fst (generate_description (MistralAPI_init ''k'') always_busy ''cats'' ''T'' initial_state) =
        Inl (AttributeError ''NoneType object has no attribute replace'')
   \<and> fst (generate_image_prompt (MistralAPI_init ''k'') always_busy ''cats'' initial_state) =
        Inl (AttributeError ''NoneType object has no attribute replace'')
   \<and> fst (generate_tags (MistralAPI_init ''k'') always_busy ''cats'' initial_state) =
        Inl (AttributeError ''NoneType object has no attribute replace'')"
proof -
  have "\<forall>i<3. rate_limited always_busy (post always_busy (posts initial_state + i))"
    by (simp add: world_defs rate_limited_def sleep_error_def)
  from all_429_returns_None [OF this, of "''k''" "''p''" "''cats''" "''T''"]
  show ?thesis by (simp add: initial_state_def)
qed

text \<open>
  Claim C3 as the specification states it fails: when each of the three iterations receives
  a 429 whose \<^verbatim>\<open>Retry-After\<close> header is an HTTP date, \<^verbatim>\<open>_make_request\<close> raises
  \<^verbatim>\<open>ValueError\<close> on its third request, and the caller receives that exception.
\<close>

theorem all_429_dated_counterexample:
  "make_request (MistralAPI_init ''k'') always_busy_dated ''p'' initial_state =
     (Inl (ValueError ''invalid literal for int() with base 10''),
      \<lparr>posts = 3, image_calls = 0,
       trace = [Post ''p'',
                Print (RetryingMsg (ValueError ''invalid literal for int() with base 10'') 2),
                Sleep 2, Post ''p'',
                Print (RetryingMsg (ValueError ''invalid literal for int() with base 10'') 2),
                Sleep 2, Post ''p'']\<rparr>)
   \<and> fst (generate_title (MistralAPI_init ''k'') always_busy_dated ''cats'' initial_state) =
     Inl (ValueError ''invalid literal for int() with base 10'')"
  by (simp add: generate_title_def request_replace_def make_request_def init_simps py_range_3
      try_block_def requests_post_def wait_time_def time_sleep_def sleep_error_def emit_def
      world_defs initial_state_def)

theorem repeated_failure_raises_witness:
  "make_request (MistralAPI_init ''k'') always_failing ''p'' initial_state =
    (Inl (OtherException ''KeyError''),
     \<lparr>posts = 3, image_calls = 0,
      trace = [Post ''p'', Print (RetryingMsg (OtherException ''ConnectionError'') 2), Sleep 2,
               Post ''p'', Print (RetryingMsg (HTTPError 500) 2), Sleep 2,
               Post ''p'']\<rparr>)"
proof -
  have "failure (post always_failing (posts initial_state)) =
      Some (OtherException ''ConnectionError'')"
    and "failure (post always_failing (posts initial_state + 1)) = Some (HTTPError 500)"
    and "failure (post always_failing (posts initial_state + 2)) =
      Some (OtherException ''KeyError'')"
    by (simp_all add: world_defs failure_def initial_state_def raise_for_status_def)
  from repeated_failure_raises [OF this, of "''k''" "''p''"]
  show ?thesis by (simp add: initial_state_def)
qed

lemma make_request_busy_then_errors:
  "make_request (MistralAPI_init ''k'') busy_then_errors ''p'' initial_state =
    (Inl (OtherException ''ConnectionError''),
     \<lparr>posts = 3, image_calls = 0,
      trace = [Post ''p'', Print (RateLimitedMsg 2), Sleep 2,
               Post ''p'', Print (RetryingMsg (OtherException ''ConnectionError'') 2), Sleep 2,
               Post ''p'']\<rparr>)"
  by (simp add: make_request_def init_simps py_range_3 try_block_def requests_post_def
      wait_time_def time_sleep_def sleep_error_def emit_def world_defs initial_state_def)

lemma make_request_errors_then_ok:
  "make_request (MistralAPI_init ''k'') errors_then_ok ''p'' initial_state =
    (Inr (Some ''X''),
     \<lparr>posts = 3, image_calls = 0,
      trace = [Post ''p'', Print (RetryingMsg (OtherException ''ConnectionError'') 2), Sleep 2,
               Post ''p'', Print (RetryingMsg (OtherException ''ConnectionError'') 2), Sleep 2,
               Post ''p'']\<rparr>)"
  by (simp add: make_request_def init_simps py_range_3 try_block_def requests_post_def
      wait_time_def time_sleep_def sleep_error_def emit_def world_defs initial_state_def
      raise_for_status_def strip_def isspace_def)

theorem rate_limit_uses_attempt_witness:
  "posts (snd (make_request (MistralAPI_init ''k'') busy_then_errors ''p'' initial_state)) \<le> 3
   \<and> fst (make_request (MistralAPI_init ''k'') busy_then_errors ''p'' initial_state) =
       Inl (OtherException ''ConnectionError'')
   \<and> posts (snd (make_request (MistralAPI_init ''k'') busy_then_errors ''p'' initial_state)) = 3"
  using rate_limit_uses_attempt [of "''k''" busy_then_errors "''p''" initial_state]
  unfolding make_request_busy_then_errors by (simp add: initial_state_def)

text \<open>
  Claim C1 as the specification states it fails: after one 429 and two network errors
  \<^verbatim>\<open>_make_request\<close> raises on its third request, with two failures met and not three.
\<close>

theorem rate_limit_budget_counterexample:
  "fst (make_request (MistralAPI_init ''k'') busy_then_errors ''p'' initial_state) =
     Inl (OtherException ''ConnectionError'')
   \<and> posts (snd (make_request (MistralAPI_init ''k'') busy_then_errors ''p'' initial_state)) = 3
   \<and> failures_met busy_then_errors initial_state
       (snd (make_request (MistralAPI_init ''k'') busy_then_errors ''p'' initial_state)) = 2
   \<and> fst (make_request (MistralAPI_init ''k'') errors_then_ok ''p'' initial_state) =
     Inr (Some ''X'')"
  unfolding make_request_busy_then_errors make_request_errors_then_ok
  by (simp add: failures_met_def failure_def busy_then_errors_def busy_response_def
      initial_state_def upt_rec)

section \<open>The row loop\<close>

lemma writes_emit: "writes (emit ev st) = (if is_write ev then writes st @ [ev] else writes st)"
  by (simp add: writes_def emit_def)

lemma writes_update [simp]:
  "writes (st\<lparr>posts := n\<rparr>) = writes st"
  "writes (st\<lparr>image_calls := k\<rparr>) = writes st"
  by (simp_all add: writes_def)

lemma is_write_simps [simp]:
  "\<not> is_write (Print m)" "\<not> is_write (Post p)" "\<not> is_write (Sleep n)"
  "\<not> is_write (ImagesGenerate p)" "\<not> is_write (Get u)"
  "is_write (Save img name)" "is_write (ToCsv res name)"
  by (simp_all add: is_write_def)

lemma saved_filter: "saved (filter is_write evs) = saved evs"
  by (induction evs rule: saved.induct) simp_all

lemma written_tables_filter: "written_tables (filter is_write evs) = written_tables evs"
  by (induction evs rule: written_tables.induct) simp_all

lemma saved_writes: "saved (trace st) = saved (writes st)"
  by (simp add: writes_def saved_filter)

lemma written_tables_writes: "written_tables (trace st) = written_tables (writes st)"
  by (simp add: writes_def written_tables_filter)

lemma saved_append: "saved (xs @ ys) = saved xs @ saved ys"
  by (induction xs rule: saved.induct) simp_all

lemma written_tables_append: "written_tables (xs @ ys) = written_tables xs @ written_tables ys"
  by (induction xs rule: written_tables.induct) simp_all

lemma time_sleep_writes: "writes (snd (time_sleep w secs st)) = writes st"
  by (simp add: time_sleep_def writes_emit split: option.splits)

lemma time_sleep_writes_eq: "time_sleep w secs st = (r, st') \<Longrightarrow> writes st' = writes st"
  using time_sleep_writes [of w secs st] by simp

lemma try_block_writes: "writes (snd (try_block self w prompt attempt st)) = writes st"
  by (auto simp add: try_block_def requests_post_def writes_emit
      split: http_outcome.splits sum.splits option.splits prod.splits
      dest!: time_sleep_writes_eq)

lemma attempts_writes: "writes (snd (attempts self w prompt as st)) = writes st"
proof (induction as arbitrary: st)
  case Nil
  then show ?case by simp
next
  case (Cons a as)
  obtain fl st1 where tb: "try_block self w prompt a st = (fl, st1)"
    by (cases "try_block self w prompt a st")
  then have w1: "writes st1 = writes st"
    using try_block_writes [of self w prompt a st] by simp
  show ?case
  proof (cases fl)
    case (Return s)
    then show ?thesis using tb w1 by simp
  next
    case Continue
    then show ?thesis using tb w1 Cons.IH [of st1] by simp
  next
    case (Raise e)
    let ?st' = "emit (Print (RetryingMsg e (retry_delay self))) st1"
    obtain r st2 where ts: "time_sleep w (retry_delay self) ?st' = (r, st2)"
      by (cases "time_sleep w (retry_delay self) ?st'")
    then have w2: "writes st2 = writes st"
      using time_sleep_writes [of w "retry_delay self" ?st'] w1 by (simp add: writes_emit)
    show ?thesis
      using tb Raise ts w1 w2 Cons.IH [of st2]
      by (cases r) (simp_all split: if_splits)
  qed
qed

lemma request_replace_snd:
  "snd (request_replace self w prompt st) = snd (make_request self w prompt st)"
  by (auto simp add: request_replace_def split: prod.splits sum.splits option.splits)

lemma request_replace_writes: "writes (snd (request_replace self w prompt st)) = writes st"
  by (simp add: request_replace_snd make_request_def attempts_writes)

lemma generate_title_writes: "writes (snd (generate_title self w detail st)) = writes st"
  by (simp add: generate_title_def request_replace_writes writes_emit)

lemma generate_description_snd:
  "snd (generate_description self w detail ttl st) =
   snd (request_replace self w (description_prompt detail ttl)
          (emit (Print (Line ''Generating description...'')) st))"
  by (auto simp add: generate_description_def split: prod.splits sum.splits)

lemma generate_description_writes:
  "writes (snd (generate_description self w detail ttl st)) = writes st"
  by (simp add: generate_description_snd request_replace_writes writes_emit)

lemma generate_image_prompt_writes:
  "writes (snd (generate_image_prompt self w detail st)) = writes st"
  by (simp add: generate_image_prompt_def request_replace_writes writes_emit)

lemma generate_tags_writes: "writes (snd (generate_tags self w detail st)) = writes st"
  by (simp add: generate_tags_def request_replace_writes writes_emit)

lemma generate_content_writes: "writes (snd (generate_content self w detail st)) = writes st"
proof -
  have t: "writes s = writes st" if "generate_title self w detail st = (r, s)" for r s
    using generate_title_writes [of self w detail st] that by simp
  have d: "writes s' = writes s"
    if "generate_description self w detail ttl (emit (Print m) s) = (r, s')" for r s s' ttl m
    using generate_description_writes [of self w detail ttl "emit (Print m) s"] that
    by (simp add: writes_emit)
  have i: "writes s' = writes s"
    if "generate_image_prompt self w detail (emit (Print m) s) = (r, s')" for r s s' m
    using generate_image_prompt_writes [of self w detail "emit (Print m) s"] that
    by (simp add: writes_emit)
  have g: "writes s' = writes s"
    if "generate_tags self w detail (emit (Print m) s) = (r, s')" for r s s' m
    using generate_tags_writes [of self w detail "emit (Print m) s"] that
    by (simp add: writes_emit)
  show ?thesis
    by (auto simp add: generate_content_def writes_emit split: prod.splits sum.splits
        dest!: t d i g)
qed

lemma image_try_block_writes: "writes (snd (image_try_block w prompt st)) = writes st"
  by (auto simp add: image_try_block_def Let_def writes_emit
      split: sum.splits list.splits option.splits)

lemma generate_image_writes: "writes (snd (generate_image w prompt st)) = writes st"
  using image_try_block_writes [of w prompt "emit (Print (Line ''Generating image...'')) st"]
  by (auto simp add: generate_image_def writes_emit split: prod.splits sum.splits)


lemma template_no_quote: "quote \<notin> set get_template_description"
  by (simp add: get_template_description_def quote_def apostrophe_def newline_def)

lemma replace_quote_no_quote: "quote \<notin> set (replace_quote s)"
  by (simp add: replace_quote_def)

lemma request_replace_Inr:
  assumes "request_replace self w prompt st = (Inr t, st')"
  shows "\<exists>s. make_request self w prompt st = (Inr (Some s), st') \<and> t = replace_quote s"
  using assms
  by (auto simp add: request_replace_def split: prod.splits sum.splits option.splits)

lemma generate_description_Inr:
  assumes "generate_description self w detail ttl st = (Inr d, st')"
  shows "\<exists>s. make_request self w (description_prompt detail ttl)
               (emit (Print (Line ''Generating description...'')) st) = (Inr (Some s), st')
             \<and> d = replace_quote s @ get_template_description"
proof -
  from assms obtain t where
    "request_replace self w (description_prompt detail ttl)
       (emit (Print (Line ''Generating description...'')) st) = (Inr t, st')"
    and d: "d = t @ get_template_description"
    by (auto simp add: generate_description_def split: prod.splits sum.splits)
  from request_replace_Inr [OF this(1)] d show ?thesis by auto
qed

lemma generate_content_Inr:
  assumes "generate_content self w detail st = (Inr (ttl, descr, image_prompt, tgs), st')"
  shows "\<exists>s1 s2. generate_description self w detail ttl s1 = (Inr descr, s2)"
  using assms
  by (auto simp add: generate_content_def split: prod.splits sum.splits)

lemma process_row_cases:
  assumes "process_row mistral w idx detail st res = (Inr res', st')"
  obtains (skipped) "res' = res" "writes st' = writes st"
  | (stored) ttl descr tgs img s1 s2 where
      "res' = store (image_file_name idx) ttl descr tgs res"
      "writes st' = writes st @ [Save img (image_file_name idx)]"
      "generate_description mistral w detail ttl s1 = (Inr descr, s2)"
proof -
  from assms obtain ttl descr image_prompt tgs st1 where
    gc: "generate_content mistral w detail st = (Inr (ttl, descr, image_prompt, tgs), st1)"
    by (auto simp add: process_row_def split: prod.splits sum.splits)
  then have w1: "writes st1 = writes st"
    using generate_content_writes [of mistral w detail st] by simp
  obtain r st2 where gi: "generate_image w image_prompt st1 = (r, st2)"
    by (cases "generate_image w image_prompt st1")
  then have w2: "writes st2 = writes st"
    using generate_image_writes [of w image_prompt st1] w1 by simp
  show thesis
  proof (cases r)
    case None
    with assms gc gi w2 have "res' = res" "writes st' = writes st"
      by (simp_all add: process_row_def)
    then show thesis by (rule skipped)
  next
    case (Some a)
    obtain img url where a: "a = (img, url)" by (cases a)
    have sv: "image_save w img (image_file_name idx) = None"
      using Some a assms gc gi
      by (cases "image_save w img (image_file_name idx)") (simp_all add: process_row_def)
    with a Some assms gc gi w2
    have "res' = store (image_file_name idx) ttl descr tgs res"
      "writes st' = writes st @ [Save img (image_file_name idx)]"
      by (auto simp add: process_row_def writes_emit)
    moreover obtain s1 s2 where "generate_description mistral w detail ttl s1 = (Inr descr, s2)"
      using generate_content_Inr [OF gc] by blast
    ultimately show thesis by (rule stored)
  qed
qed

lemma process_row_tables:
  "written_tables (trace (snd (process_row mistral w idx detail st res))) =
   written_tables (trace st)"
proof -
  obtain r st1 where gc: "generate_content mistral w detail st = (r, st1)"
    by (cases "generate_content mistral w detail st")
  then have w1: "writes st1 = writes st"
    using generate_content_writes [of mistral w detail st] by simp
  show ?thesis
  proof (cases r)
    case (Inl e)
    with gc w1 show ?thesis by (simp add: process_row_def written_tables_writes)
  next
    case (Inr c)
    obtain ttl descr image_prompt tgs where c: "c = (ttl, descr, image_prompt, tgs)"
      by (cases c)
    obtain r2 st2 where gi: "generate_image w image_prompt st1 = (r2, st2)"
      by (cases "generate_image w image_prompt st1")
    then have w2: "writes st2 = writes st"
      using generate_image_writes [of w image_prompt st1] w1 by simp
    show ?thesis
    proof (cases r2)
      case None
      with gc Inr c gi w2 show ?thesis
        by (simp add: process_row_def written_tables_writes)
    next
      case (Some a)
      obtain img url where a: "a = (img, url)" by (cases a)
      show ?thesis
        using gc Inr c gi w2 Some a
        by (cases "image_save w img (image_file_name idx)")
          (simp_all add: process_row_def written_tables_writes writes_emit
            written_tables_append)
    qed
  qed
qed

lemma process_rows_tables:
  "written_tables (trace (snd (process_rows mistral w rows st res))) =
   written_tables (trace st)"
proof (induction rows arbitrary: st res)
  case Nil
  then show ?case by simp
next
  case (Cons row rows)
  obtain idx detail where row: "row = (idx, detail)" by (cases row)
  obtain r st1 where pr: "process_row mistral w idx detail st res = (r, st1)"
    by (cases "process_row mistral w idx detail st res")
  then have t1: "written_tables (trace st1) = written_tables (trace st)"
    using process_row_tables [of mistral w idx detail st res] by simp
  show ?case
    using row pr t1 Cons.IH [of st1] by (cases r) simp_all
qed

lemma process_rows_append:
  "process_rows mistral w pre st res = (Inr res1, st1) \<Longrightarrow>
   process_rows mistral w (pre @ rows) st res = process_rows mistral w rows st1 res1"
proof (induction pre arbitrary: st res)
  case Nil
  then show ?case by simp
next
  case (Cons row pre)
  obtain idx detail where row: "row = (idx, detail)" by (cases row)
  obtain r st' where pr: "process_row mistral w idx detail st res = (r, st')"
    by (cases "process_row mistral w idx detail st res")
  show ?case
  proof (cases r)
    case (Inl e)
    with Cons.prems row pr show ?thesis by simp
  next
    case (Inr res')
    with Cons.prems row pr have "process_rows mistral w pre st' res' = (Inr res1, st1)"
      by simp
    from Cons.IH [OF this] row pr Inr show ?thesis by simp
  qed
qed

lemma iterrows_append:
  "iterrows (pre @ detail # rest) =
   iterrows pre @ (length pre, detail) #
     zip [Suc (length pre)..<Suc (length pre + length rest)] rest"
proof -
  have "[0..<length pre + Suc (length rest)] =
      [0..<length pre] @ [length pre..<length pre + Suc (length rest)]"
    by (rule upt_add_eq_append) simp
  also have "[length pre..<length pre + Suc (length rest)] =
      length pre # [Suc (length pre)..<Suc (length pre + length rest)]"
    by (simp only: upt_rec [of "length pre"]) simp
  finally show ?thesis by (simp add: iterrows_def)
qed

lemma main_rows:
  assumes "getenv w ''MISTRAL_API_KEY'' = Some key" and "key \<noteq> []"
    and "Together (getenv w) = None"
    and "read_csv w = Frame df" and "map_of df ''details'' = Some cells"
  shows "main w =
    (case process_rows (MistralAPI_init key) w (iterrows cells) initial_state empty_results of
       (Inl e, st) \<Rightarrow> (Some e, st)
     | (Inr res, st) \<Rightarrow>
         (None, emit (Print (Line ''Results saved to product_information.csv''))
                  (emit (ToCsv res ''product_information.csv'') st)))"
  using assms by (simp add: main_def)

lemma generate_content_raises:
  "generate_content mistral w detail st = (Inl e, st') \<longleftrightarrow>
     generate_title mistral w detail st = (Inl e, st')
   \<or> (\<exists>ttl s1. generate_title mistral w detail st = (Inr ttl, s1) \<and>
        (generate_description mistral w detail ttl
           (emit (Print (Line (''Title: '' @ ttl))) s1) = (Inl e, st')
       \<or> (\<exists>descr s2. generate_description mistral w detail ttl
               (emit (Print (Line (''Title: '' @ ttl))) s1) = (Inr descr, s2) \<and>
            (generate_image_prompt mistral w detail
               (emit (Print (Line (''Description: '' @ descr))) s2) = (Inl e, st')
           \<or> (\<exists>image_prompt s3. generate_image_prompt mistral w detail
                   (emit (Print (Line (''Description: '' @ descr))) s2) = (Inr image_prompt, s3) \<and>
                generate_tags mistral w detail
                  (emit (Print (Line (''Image prompt: '' @ image_prompt))) s3) = (Inl e, st'))))))"
  by (auto simp add: generate_content_def split: prod.splits sum.splits)

text \<open>
  Claim C5. When any of the four text-generation calls of a row raises, which is when the
  block \<open>generate_content\<close> returns the exception (\<open>generate_content_raises\<close>), the
  exception leaves the row loop and \<^verbatim>\<open>main\<close>: the rows after it are not processed and no
  output table is written.
\<close>

theorem text_failure_aborts_batch:
  assumes "getenv w ''MISTRAL_API_KEY'' = Some key" and "key \<noteq> []"
    and "Together (getenv w) = None"
    and "read_csv w = Frame df" and "map_of df ''details'' = Some (pre @ detail # rest)"
    and "process_rows (MistralAPI_init key) w (iterrows pre) initial_state empty_results =
           (Inr res1, st1)"
    and "generate_content (MistralAPI_init key) w detail st1 = (Inl e, st2)"
  shows "main w = (Some e, st2) \<and> written_tables (trace st2) = []"
proof -
  let ?api = "MistralAPI_init key"
  let ?later = "zip [Suc (length pre)..<Suc (length pre + length rest)] rest"
  have row: "process_row ?api w (length pre) detail st1 res1 = (Inl e, st2)"
    using assms(7) by (simp add: process_row_def)
  have "process_rows ?api w (iterrows (pre @ detail # rest)) initial_state empty_results =
      process_rows ?api w ((length pre, detail) # ?later) st1 res1"
    unfolding iterrows_append by (rule process_rows_append [OF assms(6)])
  also have "\<dots> = (Inl e, st2)"
    using row by simp
  finally have rows: "process_rows ?api w (iterrows (pre @ detail # rest)) initial_state
      empty_results = (Inl e, st2)" .
  have "main w = (Some e, st2)"
    unfolding main_rows [OF assms(1-5)] rows by simp
  moreover have "written_tables (trace st2) = []"
    using process_rows_tables [of ?api w "iterrows (pre @ detail # rest)" initial_state
        empty_results]
    unfolding rows by (simp add: initial_state_def)
  ultimately show ?thesis by simp
qed


lemma ToCsv_written: "ToCsv res name \<in> set evs \<Longrightarrow> res \<in> set (written_tables evs)"
  by (induction evs rule: written_tables.induct) auto

lemma main_table:
  assumes "ToCsv res name \<in> set (trace (snd (main w)))"
  shows "\<exists>key cells st.
    process_rows (MistralAPI_init key) w (iterrows cells) initial_state empty_results =
      (Inr res, st)"
proof -
  have none: "ToCsv res name \<notin> set (trace initial_state)"
    by (simp add: initial_state_def)
  have rows: "ToCsv res name \<notin> set (trace (snd (process_rows m w rows initial_state empty_results)))"
    for m rows
    using ToCsv_written [of res name "trace (snd (process_rows m w rows initial_state empty_results))"]
    by (auto simp add: process_rows_tables initial_state_def)
  show ?thesis
  proof (cases "getenv w ''MISTRAL_API_KEY''")
    case None
    with assms none show ?thesis by (simp add: main_def)
  next
    case (Some key)
    show ?thesis
    proof (cases "key = [] \<or> Together (getenv w) \<noteq> None")
      case True
      then have "snd (main w) = initial_state"
        using Some by (auto simp add: main_def)
      with assms none show ?thesis by simp
    next
      case False
      show ?thesis
      proof (cases "read_csv w")
        case (Frame df)
        show ?thesis
        proof (cases "map_of df ''details''")
          case None
          then have "snd (main w) = initial_state"
            using Some False Frame by (auto simp add: main_def)
          with assms none show ?thesis by simp
        next
          case cells: (Some cells)
          obtain r st where pr: "process_rows (MistralAPI_init key) w (iterrows cells)
              initial_state empty_results = (r, st)"
            by (cases "process_rows (MistralAPI_init key) w (iterrows cells) initial_state
              empty_results")
          have notin: "ToCsv res name \<notin> set (trace st)"
            using rows [of "MistralAPI_init key" "iterrows cells"] pr by simp
          have m: "main w = (case (r, st) of
              (Inl e, st) \<Rightarrow> (Some e, st)
            | (Inr res, st) \<Rightarrow>
                (None, emit (Print (Line ''Results saved to product_information.csv''))
                  (emit (ToCsv res ''product_information.csv'') st)))"
            using Some False Frame cells pr main_rows [of w key df cells] by simp
          show ?thesis
          proof (cases r)
            case (Inl e)
            with assms m notin show ?thesis by simp
          next
            case (Inr res')
            with assms m notin have "res' = res" by (auto simp add: emit_def)
            with pr Inr show ?thesis by blast
          qed
        qed
      next
        case FileNotFound
        then have "snd (main w) = initial_state"
          using Some False by (auto simp add: main_def)
        with assms none show ?thesis by simp
      next
        case EmptyData
        then have "snd (main w) = initial_state"
          using Some False by (auto simp add: main_def)
        with assms none show ?thesis by simp
      next
        case (ReadError e)
        then have "snd (main w) = initial_state"
          using Some False by (auto simp add: main_def)
        with assms none show ?thesis by simp
      qed
    qed
  qed
qed

lemma process_rows_names:
  "process_rows mistral w rows st res = (Inr res', st') \<Longrightarrow>
   \<exists>ks. subseq ks (map fst rows)
      \<and> file_name res' = file_name res @ map image_file_name ks
      \<and> local_path res' = local_path res @ map image_file_name ks
      \<and> saved (trace st') = saved (trace st) @ map image_file_name ks
      \<and> length (title res') = length (title res) + length ks
      \<and> length (description res') = length (description res) + length ks
      \<and> length (tags res') = length (tags res) + length ks"
proof (induction rows arbitrary: st res)
  case Nil
  then show ?case by auto
next
  case (Cons row rows)
  obtain idx detail where row: "row = (idx, detail)" by (cases row)
  from Cons.prems row obtain res1 st1 where
    pr: "process_row mistral w idx detail st res = (Inr res1, st1)"
    and rest: "process_rows mistral w rows st1 res1 = (Inr res', st')"
    by (auto split: prod.splits sum.splits)
  from Cons.IH [OF rest] obtain ks where ks: "subseq ks (map fst rows)"
    "file_name res' = file_name res1 @ map image_file_name ks"
    "local_path res' = local_path res1 @ map image_file_name ks"
    "saved (trace st') = saved (trace st1) @ map image_file_name ks"
    "length (title res') = length (title res1) + length ks"
    "length (description res') = length (description res1) + length ks"
    "length (tags res') = length (tags res1) + length ks"
    by blast
  from pr show ?case
  proof (cases rule: process_row_cases)
    case skipped
    then have "saved (trace st1) = saved (trace st)"
      by (simp add: saved_writes)
    with ks skipped row have "subseq ks (map fst (row # rows))
      \<and> file_name res' = file_name res @ map image_file_name ks
      \<and> local_path res' = local_path res @ map image_file_name ks
      \<and> saved (trace st') = saved (trace st) @ map image_file_name ks
      \<and> length (title res') = length (title res) + length ks
      \<and> length (description res') = length (description res) + length ks
      \<and> length (tags res') = length (tags res) + length ks"
      by (simp add: list_emb_Cons)
    then show ?thesis by blast
  next
    case (stored ttl descr tgs img s1 s2)
    then have "saved (trace st1) = saved (trace st) @ [image_file_name idx]"
      by (simp add: saved_writes saved_append)
    with ks stored row have "subseq (idx # ks) (map fst (row # rows))
      \<and> file_name res' = file_name res @ map image_file_name (idx # ks)
      \<and> local_path res' = local_path res @ map image_file_name (idx # ks)
      \<and> saved (trace st') = saved (trace st) @ map image_file_name (idx # ks)
      \<and> length (title res') = length (title res) + length (idx # ks)
      \<and> length (description res') = length (description res) + length (idx # ks)
      \<and> length (tags res') = length (tags res) + length (idx # ks)"
      by (simp add: store_def)
    then show ?thesis by blast
  qed
qed

lemma process_rows_descriptions:
  "process_rows mistral w rows st res = (Inr res', st') \<Longrightarrow>
   \<forall>d\<in>set (description res). suffix get_template_description d \<Longrightarrow>
   \<forall>d\<in>set (description res'). suffix get_template_description d"
proof (induction rows arbitrary: st res)
  case Nil
  then show ?case by simp
next
  case (Cons row rows)
  obtain idx detail where row: "row = (idx, detail)" by (cases row)
  from Cons.prems(1) row obtain res1 st1 where
    pr: "process_row mistral w idx detail st res = (Inr res1, st1)"
    and rest: "process_rows mistral w rows st1 res1 = (Inr res', st')"
    by (auto split: prod.splits sum.splits)
  from pr have "\<forall>d\<in>set (description res1). suffix get_template_description d"
  proof (cases rule: process_row_cases)
    case skipped
    with Cons.prems(2) show ?thesis by simp
  next
    case (stored ttl descr tgs img s1 s2)
    from generate_description_Inr [OF stored(3)]
    have "suffix get_template_description descr"
      by (auto simp add: suffix_def)
    with stored(1) Cons.prems(2) show ?thesis by (simp add: store_def)
  qed
  from Cons.IH [OF rest this] show ?case .
qed

text \<open>
  Claim C4. When the call of the image service or the download of the image raises in a
  row, \<^verbatim>\<open>generate_image\<close> catches the exception, prints the error line and returns
  \<^verbatim>\<open>None\<close>; the row appends no record and saves no image file, and the loop goes on with
  the next row.
\<close>

theorem image_failure_skips_row:
  assumes "generate_content mistral w detail st = (Inr (ttl, descr, image_prompt, tgs), st1)"
    and "images_generate w (image_calls st1) = Inl e
       \<or> (\<exists>url urls. images_generate w (image_calls st1) = Inr (url # urls)
             \<and> requests_get w (image_calls st1) = Inl e)"
  shows "\<exists>st2. generate_image w image_prompt st1 = (None, st2)
       \<and> last (trace st2) = Print (ImageErrorMsg e)
       \<and> process_row mistral w idx detail st res = (Inr res, st2)
       \<and> saved (trace st2) = saved (trace st)
       \<and> process_rows mistral w ((idx, detail) # rows) st res =
           process_rows mistral w rows st2 res"
proof -
  let ?s0 = "emit (Print (Line ''Generating image...'')) st1"
  from assms(2) obtain s where tb: "image_try_block w image_prompt ?s0 = (Inl e, s)"
    by (auto simp add: image_try_block_def Let_def emit_simps)
  let ?st2 = "emit (Print (ImageErrorMsg e)) s"
  have gi: "generate_image w image_prompt st1 = (None, ?st2)"
    by (simp add: generate_image_def tb)
  have pr: "process_row mistral w idx detail st res = (Inr res, ?st2)"
    by (simp add: process_row_def assms(1) gi)
  have "writes ?st2 = writes st1"
    using generate_image_writes [of w image_prompt st1] by (simp add: gi)
  moreover have "writes st1 = writes st"
    using generate_content_writes [of mistral w detail st] by (simp add: assms(1))
  ultimately have sv: "saved (trace ?st2) = saved (trace st)"
    by (simp add: saved_writes)
  have "last (trace ?st2) = Print (ImageErrorMsg e)"
    by (simp add: emit_simps)
  with gi pr sv show ?thesis by simp
qed

lemma map_fst_iterrows: "map fst (iterrows cells) = [0..<length cells]"
  by (simp add: iterrows_def)

lemma process_rows_extends:
  "process_rows mistral w rows st res = (Inr res', st') \<Longrightarrow>
   \<exists>ns ts ds gs.
      file_name res' = file_name res @ ns \<and> local_path res' = local_path res @ ns
      \<and> title res' = title res @ ts \<and> description res' = description res @ ds
      \<and> tags res' = tags res @ gs \<and> saved (trace st') = saved (trace st) @ ns"
proof (induction rows arbitrary: st res)
  case Nil
  then show ?case by simp
next
  case (Cons row rows)
  obtain idx detail where row: "row = (idx, detail)" by (cases row)
  from Cons.prems row obtain res1 st1 where
    pr: "process_row mistral w idx detail st res = (Inr res1, st1)"
    and rest: "process_rows mistral w rows st1 res1 = (Inr res', st')"
    by (auto split: prod.splits sum.splits)
  from Cons.IH [OF rest] obtain ns ts ds gs where later:
    "file_name res' = file_name res1 @ ns" "local_path res' = local_path res1 @ ns"
    "title res' = title res1 @ ts" "description res' = description res1 @ ds"
    "tags res' = tags res1 @ gs" "saved (trace st') = saved (trace st1) @ ns"
    by blast
  from pr show ?case
  proof (cases rule: process_row_cases)
    case skipped
    then have "saved (trace st1) = saved (trace st)"
      by (simp add: saved_writes)
    with later skipped show ?thesis by simp
  next
    case (stored ttl descr tgs img s1 s2)
    then have "saved (trace st1) = saved (trace st) @ [image_file_name idx]"
      by (simp add: saved_writes saved_append)
    with later stored(1) show ?thesis by (simp add: store_def)
  qed
qed

lemma process_rows_position:
  assumes pre: "process_rows mistral w before st0 res0 = (Inr res, st)"
    and row: "process_row mistral w idx detail st res = (Inr res2, st3)"
    and post: "process_rows mistral w after st3 res2 = (Inr res', st')"
    and new: "file_name res2 = file_name res @ [n]" "local_path res2 = local_path res @ [n]"
      "title res2 = title res @ [t]" "description res2 = description res @ [d]"
      "tags res2 = tags res @ [g]" "saved (trace st3) = saved (trace st) @ [n]"
  shows "process_rows mistral w (before @ (idx, detail) # after) st0 res0 = (Inr res', st')
    \<and> take (Suc (length (file_name res))) (file_name res') = file_name res @ [n]
    \<and> take (Suc (length (local_path res))) (local_path res') = local_path res @ [n]
    \<and> take (Suc (length (title res))) (title res') = title res @ [t]
    \<and> take (Suc (length (description res))) (description res') = description res @ [d]
    \<and> take (Suc (length (tags res))) (tags res') = tags res @ [g]
    \<and> take (Suc (length (saved (trace st)))) (saved (trace st')) = saved (trace st) @ [n]"
proof -
  have "process_rows mistral w (before @ (idx, detail) # after) st0 res0 =
      process_rows mistral w ((idx, detail) # after) st res"
    by (rule process_rows_append [OF pre])
  also have "\<dots> = process_rows mistral w after st3 res2"
    by (simp add: row)
  finally have all: "process_rows mistral w (before @ (idx, detail) # after) st0 res0 =
      (Inr res', st')"
    using post by simp
  from process_rows_extends [OF post] obtain ns ts ds gs where ext:
    "file_name res' = file_name res2 @ ns" "local_path res' = local_path res2 @ ns"
    "title res' = title res2 @ ts" "description res' = description res2 @ ds"
    "tags res' = tags res2 @ gs" "saved (trace st') = saved (trace st3) @ ns"
    by blast
  have "take (Suc (length (file_name res))) (file_name res') = file_name res @ [n]"
    "take (Suc (length (local_path res))) (local_path res') = local_path res @ [n]"
    "take (Suc (length (title res))) (title res') = title res @ [t]"
    "take (Suc (length (description res))) (description res') = description res @ [d]"
    "take (Suc (length (tags res))) (tags res') = tags res @ [g]"
    "take (Suc (length (saved (trace st)))) (saved (trace st')) = saved (trace st) @ [n]"
    unfolding ext new by simp_all
  with all show ?thesis by (intro conjI)
qed



lemma request_replace_no_quote:
  "fst (request_replace self w prompt st) = Inr t \<Longrightarrow> quote \<notin> set t"
  by (auto simp add: request_replace_fst replace_quote_no_quote split: sum.splits option.splits)

text \<open>
  Claim C7. No value that \<^verbatim>\<open>generate_title\<close>, \<^verbatim>\<open>generate_description\<close>,
  \<^verbatim>\<open>generate_image_prompt\<close> or \<^verbatim>\<open>generate_tags\<close> returns contains the quote character.
\<close>

theorem generated_text_has_no_quote:
  "(fst (generate_title self w detail st) = Inr t \<longrightarrow> quote \<notin> set t)
   \<and> (fst (generate_description self w detail ttl st) = Inr d \<longrightarrow> quote \<notin> set d)
   \<and> (fst (generate_image_prompt self w detail st) = Inr p \<longrightarrow> quote \<notin> set p)
   \<and> (fst (generate_tags self w detail st) = Inr g \<longrightarrow> quote \<notin> set g)"
proof (intro conjI impI)
  assume "fst (generate_title self w detail st) = Inr t"
  then show "quote \<notin> set t"
    unfolding generate_title_def by (rule request_replace_no_quote)
next
  assume "fst (generate_description self w detail ttl st) = Inr d"
  then obtain t' where "fst (request_replace self w (description_prompt detail ttl)
      (emit (Print (Line ''Generating description...'')) st)) = Inr t'"
    and "d = t' @ get_template_description"
    by (auto simp add: generate_description_fst split: sum.splits)
  then show "quote \<notin> set d"
    using request_replace_no_quote template_no_quote by auto
next
  assume "fst (generate_image_prompt self w detail st) = Inr p"
  then show "quote \<notin> set p"
    unfolding generate_image_prompt_def by (rule request_replace_no_quote)
next
  assume "fst (generate_tags self w detail st) = Inr g"
  then show "quote \<notin> set g"
    unfolding generate_tags_def by (rule request_replace_no_quote)
qed

text \<open>
  Claim C10. When one of the two credential variables is absent, \<^verbatim>\<open>main\<close> ends with an
  exception in its initial state, before it reads the input or sends a request:
  \<^verbatim>\<open>MISTRAL_API_KEY\<close> is checked by \<^verbatim>\<open>main\<close> itself, \<^verbatim>\<open>TOGETHER_API_KEY\<close> by the
  constructor \<^verbatim>\<open>Together()\<close> that \<^verbatim>\<open>main\<close> calls next.
\<close>

theorem missing_credential_fails_fast:
  "(getenv w ''MISTRAL_API_KEY'' = None \<longrightarrow>
      main w = (Some (ValueError ''MISTRAL_API_KEY environment variable is not set''),
                initial_state))
   \<and> (getenv w ''TOGETHER_API_KEY'' = None \<longrightarrow> (\<exists>e. main w = (Some e, initial_state)))
   \<and> (getenv w ''MISTRAL_API_KEY'' = Some key \<and> key \<noteq> []
        \<and> getenv w ''TOGETHER_API_KEY'' = None \<longrightarrow>
      main w = (Some (AuthenticationError ''The api_key client option must be set''),
                initial_state))"
proof (intro conjI impI)
  assume "getenv w ''MISTRAL_API_KEY'' = None"
  then show "main w = (Some (ValueError ''MISTRAL_API_KEY environment variable is not set''),
      initial_state)"
    by (simp add: main_def)
next
  assume t: "getenv w ''TOGETHER_API_KEY'' = None"
  show "\<exists>e. main w = (Some e, initial_state)"
  proof (cases "getenv w ''MISTRAL_API_KEY''")
    case None
    then show ?thesis by (simp add: main_def)
  next
    case (Some k)
    with t show ?thesis by (simp add: main_def Together_def)
  qed
next
  assume "getenv w ''MISTRAL_API_KEY'' = Some key \<and> key \<noteq> []
      \<and> getenv w ''TOGETHER_API_KEY'' = None"
  then show "main w = (Some (AuthenticationError ''The api_key client option must be set''),
      initial_state)"
    by (simp add: main_def Together_def)
qed

subsection \<open>The row loop on the example worlds\<close>

lemma request_replace_ok:
  assumes "post w (posts st) = Response r" and "status_code r = 200" and "content r = Inr c"
  shows "request_replace (MistralAPI_init key) w prompt st =
    (Inr (replace_quote (strip c)),
     st\<lparr>posts := posts st + 1, trace := trace st @ [Post prompt]\<rparr>)"
  using assms
  by (simp add: request_replace_def make_request_def init_simps py_range_3 try_block_def
      requests_post_def raise_for_status_def emit_def)

lemma ok_response_simps:
  "status_code ok_response = 200" "content ok_response = Inr '' X ''"
  "replace_quote (strip '' X '') = ''X''"
  by (simp_all add: ok_response_def replace_quote_def strip_def isspace_def quote_def)

lemma generate_content_ok:
  assumes "\<forall>k<4. post w (posts st + k) = Response ok_response"
  shows "generate_content (MistralAPI_init key) w detail st =
    (Inr (''X'', ''X'' @ get_template_description, ''X'', ''X''),
     st\<lparr>posts := posts st + 4,
        trace := trace st @
          [Print (Line ''Generating title...''), Post (title_prompt detail),
           Print (Line ''Title: X''),
           Print (Line ''Generating description...''), Post (description_prompt detail ''X''),
           Print (Line (''Description: X'' @ get_template_description)),
           Print (Line ''Generating image prompt...''), Post (image_prompt_prompt detail),
           Print (Line ''Image prompt: X''),
           Print (Line ''Generating tags...''), Post (tags_prompt detail),
           Print (Line ''Tags: X'')]\<rparr>)"
proof -
  have p: "post w (posts st) = Response ok_response"
    "post w (Suc (posts st)) = Response ok_response"
    "post w (Suc (Suc (posts st))) = Response ok_response"
    "post w (Suc (Suc (Suc (posts st)))) = Response ok_response"
    using assms [rule_format, of 0] assms [rule_format, of 1] assms [rule_format, of 2]
      assms [rule_format, of 3]
    by (simp_all add: eval_nat_numeral)
  have rr: "request_replace (MistralAPI_init key) w prompt s =
    (Inr ''X'', s\<lparr>posts := posts s + 1, trace := trace s @ [Post prompt]\<rparr>)"
    if "post w (posts s) = Response ok_response" for s prompt
    using request_replace_ok [OF that, of "'' X ''" key prompt]
    by (simp add: ok_response_simps)
  show ?thesis
    by (simp add: generate_content_def generate_title_def generate_description_def
        generate_image_prompt_def generate_tags_def rr p emit_def)
qed

lemma generate_image_ok:
  assumes "images_generate w (image_calls st) = Inr (u # us)"
    and "requests_get w (image_calls st) = Inr b" and "image_open w b = None"
  shows "generate_image w p st =
    (Some (Image b, u),
     st\<lparr>image_calls := image_calls st + 1,
        trace := trace st @ [Print (Line ''Generating image...''), ImagesGenerate p,
                             Print (Line (''Image URL: '' @ u)), Get u]\<rparr>)"
  using assms by (simp add: generate_image_def image_try_block_def Let_def emit_def)

lemma generate_image_down:
  assumes "images_generate w (image_calls st) = Inl e"
  shows "generate_image w p st =
    (None,
     st\<lparr>image_calls := image_calls st + 1,
        trace := trace st @ [Print (Line ''Generating image...''), ImagesGenerate p,
                             Print (ImageErrorMsg e)]\<rparr>)"
  using assms by (simp add: generate_image_def image_try_block_def Let_def emit_def)

lemma process_row_ok:
  assumes "\<forall>k<4. post w (posts st + k) = Response ok_response"
    and "images_generate w (image_calls st) = Inr (u # us)"
    and "requests_get w (image_calls st) = Inr b" and "image_open w b = None"
    and "image_save w (Image b) (image_file_name idx) = None"
  shows "\<exists>st1. process_row (MistralAPI_init key) w idx detail st res =
      (Inr (store (image_file_name idx) ''X'' (''X'' @ get_template_description) ''X'' res), st1)
    \<and> posts st1 = posts st + 4 \<and> image_calls st1 = image_calls st + 1"
  using assms(2-5)
  by (simp add: process_row_def generate_content_ok [OF assms(1)] generate_image_ok emit_def)

lemma process_row_down:
  assumes "\<forall>k<4. post w (posts st + k) = Response ok_response"
    and "images_generate w (image_calls st) = Inl e"
  shows "\<exists>st1. process_row (MistralAPI_init key) w idx detail st res = (Inr res, st1)
    \<and> posts st1 = posts st + 4 \<and> image_calls st1 = image_calls st + 1"
  using assms(2)
  by (simp add: process_row_def generate_content_ok [OF assms(1)] generate_image_down)

lemmas more_world_defs = image_service_down_def download_fails_def
  text_fails_in_second_row_def second_image_fails_def save_fails_def no_mistral_key_def
  no_together_key_def

lemma image_file_name_examples:
  "image_file_name 0 = ''image_0.png''" "image_file_name 1 = ''image_1.png''"
  by code_simp+

lemma example_rows:
  "\<exists>st. process_rows (MistralAPI_init ''mk'') example_world (iterrows [''vintage rock band''])
      initial_state empty_results =
     (Inr \<lparr>file_name = [''image_0.png''], local_path = [''image_0.png''], title = [''X''],
           description = [''X'' @ get_template_description], tags = [''X'']\<rparr>, st)"
proof -
  have "\<forall>k<4. post example_world (posts initial_state + k) = Response ok_response"
    by (simp add: example_world_def)
  from process_row_ok [OF this, where u = "''https://example.com/a.png''" and us = "[]"
      and b = "''PNG''" and key = "''mk''" and idx = 0 and detail = "''vintage rock band''"
      and res = empty_results]
  show ?thesis
    by (auto simp add: example_world_def initial_state_def iterrows_def store_def
        empty_results_def image_file_name_examples)
qed

lemma main_example:
  "fst (main example_world) = None
   \<and> ToCsv \<lparr>file_name = [''image_0.png''], local_path = [''image_0.png''], title = [''X''],
           description = [''X'' @ get_template_description], tags = [''X'']\<rparr>
        ''product_information.csv'' \<in> set (trace (snd (main example_world)))"
proof -
  have m: "main example_world =
    (case process_rows (MistralAPI_init ''mk'') example_world (iterrows [''vintage rock band''])
            initial_state empty_results of
       (Inl e, st) \<Rightarrow> (Some e, st)
     | (Inr res, st) \<Rightarrow>
         (None, emit (Print (Line ''Results saved to product_information.csv''))
                  (emit (ToCsv res ''product_information.csv'') st)))"
    by (rule main_rows [where df = "[(''details'', [''vintage rock band''])]"])
      (simp_all add: example_world_def example_env_def Together_def)
  from example_rows obtain st where
    "process_rows (MistralAPI_init ''mk'') example_world (iterrows [''vintage rock band''])
      initial_state empty_results =
     (Inr \<lparr>file_name = [''image_0.png''], local_path = [''image_0.png''], title = [''X''],
           description = [''X'' @ get_template_description], tags = [''X'']\<rparr>, st)"
    by blast
  then show ?thesis
    unfolding m by (simp add: emit_def)
qed

theorem image_failure_skips_row_witness:
  "fst (process_row (MistralAPI_init ''mk'') image_service_down 0 ''cats'' initial_state
          empty_results) = Inr empty_results
   \<and> last (trace (snd (process_row (MistralAPI_init ''mk'') image_service_down 0 ''cats''
          initial_state empty_results))) =
       Print (ImageErrorMsg (OtherException ''ServiceUnavailable''))
   \<and> saved (trace (snd (process_row (MistralAPI_init ''mk'') image_service_down 0 ''cats''
          initial_state empty_results))) = []
   \<and> fst (process_row (MistralAPI_init ''mk'') download_fails 0 ''cats'' initial_state
          empty_results) = Inr empty_results
   \<and> last (trace (snd (process_row (MistralAPI_init ''mk'') download_fails 0 ''cats''
          initial_state empty_results))) =
       Print (ImageErrorMsg (OtherException ''ConnectionError''))
   \<and> saved (trace (snd (process_row (MistralAPI_init ''mk'') download_fails 0 ''cats''
          initial_state empty_results))) = []"
proof -
  have ok1: "\<forall>k<4. post image_service_down (posts initial_state + k) = Response ok_response"
    by (simp add: more_world_defs world_defs)
  have ok2: "\<forall>k<4. post download_fails (posts initial_state + k) = Response ok_response"
    by (simp add: more_world_defs world_defs)
  note gc1 = generate_content_ok [OF ok1, of "''mk''" "''cats''"]
  note gc2 = generate_content_ok [OF ok2, of "''mk''" "''cats''"]
  from image_failure_skips_row [OF gc1, of "OtherException ''ServiceUnavailable''" 0
      empty_results "[]"]
  obtain s1 where "process_row (MistralAPI_init ''mk'') image_service_down 0 ''cats''
        initial_state empty_results = (Inr empty_results, s1)"
    "last (trace s1) = Print (ImageErrorMsg (OtherException ''ServiceUnavailable''))"
    "saved (trace s1) = saved (trace initial_state)"
    by (auto simp add: more_world_defs world_defs)
  moreover
  from image_failure_skips_row [OF gc2, of "OtherException ''ConnectionError''" 0
      empty_results "[]"]
  obtain s2 where "process_row (MistralAPI_init ''mk'') download_fails 0 ''cats''
        initial_state empty_results = (Inr empty_results, s2)"
    "last (trace s2) = Print (ImageErrorMsg (OtherException ''ConnectionError''))"
    "saved (trace s2) = saved (trace initial_state)"
    by (auto simp add: more_world_defs world_defs)
  ultimately show ?thesis
    by (simp add: initial_state_def)
qed

theorem text_failure_aborts_batch_witness:
  "main text_fails_in_second_row =
     (Some (OtherException ''ConnectionError''), snd (main text_fails_in_second_row))
   \<and> posts (snd (main text_fails_in_second_row)) = 7
   \<and> saved (trace (snd (main text_fails_in_second_row))) = [''image_0.png'']
   \<and> written_tables (trace (snd (main text_fails_in_second_row))) = []"
proof -
  let ?w = text_fails_in_second_row
  let ?api = "MistralAPI_init ''mk''"
  have ok: "\<forall>k<4. post ?w (posts initial_state + k) = Response ok_response"
    by (simp add: more_world_defs world_defs initial_state_def)
  from process_row_ok [OF ok, where u = "''https://example.com/a.png''" and us = "[]"
      and b = "''PNG''" and key = "''mk''" and idx = 0 and detail = "''cats''"
      and res = empty_results]
  obtain st1 where row: "process_row ?api ?w 0 ''cats'' initial_state empty_results =
      (Inr (store (image_file_name 0) ''X'' (''X'' @ get_template_description) ''X''
              empty_results), st1)"
    and p1: "posts st1 = 4"
    by (auto simp add: more_world_defs world_defs initial_state_def)
  have rows: "process_rows ?api ?w (iterrows [''cats'']) initial_state empty_results =
      (Inr (store (image_file_name 0) ''X'' (''X'' @ get_template_description) ''X''
              empty_results), st1)"
    by (simp add: iterrows_def row)
  have sv: "saved (trace st1) = [''image_0.png'']"
    using process_rows_names [OF rows]
    by (auto simp add: iterrows_def initial_state_def store_def empty_results_def
        image_file_name_examples)
  let ?s = "emit (Print (Line ''Generating title...'')) st1"
  have f: "failure (post ?w (posts ?s)) = Some (OtherException ''ConnectionError'')"
    "failure (post ?w (posts ?s + 1)) = Some (OtherException ''ConnectionError'')"
    "failure (post ?w (posts ?s + 2)) = Some (OtherException ''ConnectionError'')"
    by (simp_all add: more_world_defs failure_def emit_simps p1)
  define st2 where "st2 = ?s\<lparr>posts := posts ?s + 3,
      trace := trace ?s @
        [Post (title_prompt ''dogs''),
         Print (RetryingMsg (OtherException ''ConnectionError'') 2), Sleep 2,
         Post (title_prompt ''dogs''),
         Print (RetryingMsg (OtherException ''ConnectionError'') 2), Sleep 2,
         Post (title_prompt ''dogs'')]\<rparr>"
  have "make_request ?api ?w (title_prompt ''dogs'') ?s =
      (Inl (OtherException ''ConnectionError''), st2)"
    unfolding st2_def by (rule make_request_three_failures [OF f])
  then have gc: "generate_content ?api ?w ''dogs'' st1 =
      (Inl (OtherException ''ConnectionError''), st2)"
    by (simp add: generate_content_def generate_title_def request_replace_def)
  have p2: "posts st2 = 7" and w2: "writes st2 = writes st1"
    by (simp_all add: st2_def emit_simps p1 writes_def)
  have env: "getenv ?w ''MISTRAL_API_KEY'' = Some ''mk''" "''mk'' \<noteq> []"
    "Together (getenv ?w) = None"
    "read_csv ?w = Frame [(''details'', [''cats'', ''dogs''])]"
    "map_of [(''details'', [''cats'', ''dogs''])] ''details'' = Some ([''cats''] @ ''dogs'' # [])"
    by (simp_all add: more_world_defs world_defs example_env_def Together_def)
  from text_failure_aborts_batch [OF env rows gc]
  have "main ?w = (Some (OtherException ''ConnectionError''), st2)
      \<and> written_tables (trace st2) = []" .
  then show ?thesis
    using p2 sv w2 by (simp add: saved_writes)
qed


lemma image_file_name_2: "''image_'' @ str_nat 2 @ ''.png'' = ''image_2.png''"
  by code_simp

lemma image_file_name_0: "''image_'' @ str_nat 0 @ ''.png'' = ''image_0.png''"
  by code_simp

lemma iterrows_three:
  "iterrows [a, b, c] = [(0, a), (1, b)] @ (2, c) # []"
  by (simp add: iterrows_def upt_rec numeral_2_eq_2 numeral_3_eq_3)




theorem generated_text_has_no_quote_witness:
  "fst (generate_title (MistralAPI_init ''mk'') example_world ''cats'' initial_state) = Inr ''X''
   \<and> quote \<notin> set ''X''
   \<and> fst (generate_description (MistralAPI_init ''mk'') example_world ''cats'' ''T''
        initial_state) = Inr (''X'' @ get_template_description)
   \<and> quote \<notin> set (''X'' @ get_template_description)
   \<and> fst (generate_image_prompt (MistralAPI_init ''mk'') example_world ''cats''
        initial_state) = Inr ''X''
   \<and> fst (generate_tags (MistralAPI_init ''mk'') example_world ''cats'' initial_state) =
        Inr ''X''"
proof -
  let ?api = "MistralAPI_init ''mk''"
  have rr: "request_replace ?api example_world prompt (emit ev initial_state) =
      (Inr ''X'', (emit ev initial_state)\<lparr>posts := posts (emit ev initial_state) + 1,
         trace := trace (emit ev initial_state) @ [Post prompt]\<rparr>)" for prompt ev
    using request_replace_ok [of example_world "emit ev initial_state" ok_response "'' X ''"
        "''mk''" prompt]
    by (simp add: ok_response_simps world_defs)
  have t: "fst (generate_title ?api example_world ''cats'' initial_state) = Inr ''X''"
    and d: "fst (generate_description ?api example_world ''cats'' ''T'' initial_state) =
        Inr (''X'' @ get_template_description)"
    and p: "fst (generate_image_prompt ?api example_world ''cats'' initial_state) = Inr ''X''"
    and g: "fst (generate_tags ?api example_world ''cats'' initial_state) = Inr ''X''"
    by (simp_all add: generate_title_def generate_description_def generate_image_prompt_def
        generate_tags_def rr)
  from generated_text_has_no_quote [of ?api example_world "''cats''" initial_state "''X''"
      "''T''" "''X'' @ get_template_description" "''X''" "''X''"] t d p g
  show ?thesis by simp
qed

theorem missing_credential_fails_fast_witness:
  "main no_mistral_key =
     (Some (ValueError ''MISTRAL_API_KEY environment variable is not set''), initial_state)
   \<and> main no_together_key =
     (Some (AuthenticationError ''The api_key client option must be set''), initial_state)"
proof -
  have "getenv no_mistral_key ''MISTRAL_API_KEY'' = None"
    by (simp add: more_world_defs)
  from missing_credential_fails_fast [THEN conjunct1, rule_format, OF this]
  have 1: "main no_mistral_key =
     (Some (ValueError ''MISTRAL_API_KEY environment variable is not set''), initial_state)" .
  have t: "getenv no_together_key ''TOGETHER_API_KEY'' = None"
    by (simp add: more_world_defs)
  from missing_credential_fails_fast [THEN conjunct2, THEN conjunct1, rule_format, OF t]
  obtain e where 2: "main no_together_key = (Some e, initial_state)" ..
  have "getenv no_together_key ''MISTRAL_API_KEY'' = Some ''mk'' \<and> ''mk'' \<noteq> []
      \<and> getenv no_together_key ''TOGETHER_API_KEY'' = None"
    by (simp add: more_world_defs)
  from missing_credential_fails_fast [THEN conjunct2, THEN conjunct2, rule_format, OF this]
  have 3: "main no_together_key =
     (Some (AuthenticationError ''The api_key client option must be set''), initial_state)" .
  from 2 3 have "e = AuthenticationError ''The api_key client option must be set''"
    by simp
  with 1 2 show ?thesis by simp
qed

end
